theory Spec2Isabelle
  imports Complex_Main
begin

section \<open>Python values\<close>

text \<open>
  The pipeline passes dictionaries around. A page, a chunk and a search result are
  dictionaries with the fixed keys \<^verbatim>\<open>text\<close> and \<^verbatim>\<open>metadata\<close> (a search result also has
  \<^verbatim>\<open>distance\<close>): they are records. The metadata dictionary is copied, extended and read
  with \<^verbatim>\<open>[...]\<close> and \<^verbatim>\<open>.get\<close>, so it is a map from keys to values; its values are the
  strings and integers that the document processor stores.

  A \<open>string\<close> holds the UTF-8 bytes of the Python string; the literals of the source
  that are not ASCII are written as their bytes.
\<close>

datatype pyval = PStr string | PInt int

type_synonym metadata = "string \<rightharpoonup> pyval"

record doc =
  "text" :: string
  metadata :: metadata

record search_result = doc +
  distance :: real

text \<open>
  The exceptions the modelled code can meet: a missing dictionary key, an index out of
  range, a rejected argument, and any failure of a library or service call (embedding
  service, vector database, PDF and HTML readers, file system). All of them are
  subclasses of Python's \<^verbatim>\<open>Exception\<close>.
\<close>

datatype error = KeyError string | IndexError | ValueError | LibraryError

subsection \<open>\<^verbatim>\<open>str()\<close> of a value, as an f-string formats it\<close>

definition digit_char :: "nat \<Rightarrow> char" where
  "digit_char d = ''0123456789'' ! d"

fun digits :: "nat \<Rightarrow> string" where
  "digits n = (if n < 10 then [digit_char n] else digits (n div 10) @ [digit_char (n mod 10)])"

declare digits.simps [simp del]

definition str_int :: "int \<Rightarrow> string" where
  "str_int i = (if i < 0 then CHR ''-'' # digits (nat (- i)) else digits (nat i))"

fun py_str :: "pyval \<Rightarrow> string" where
  "py_str (PStr s) = s"
| "py_str (PInt i) = str_int i"

text \<open>\<^verbatim>\<open>sep.join(parts)\<close>\<close>

fun join :: "string \<Rightarrow> string list \<Rightarrow> string" where
  "join sep [] = []"
| "join sep [p] = p"
| "join sep (p # q # ps) = p @ sep @ join sep (q # ps)"

text \<open>\<^verbatim>\<open>xs[i]\<close> for \<open>i \<ge> 0\<close>: raises IndexError out of range.\<close>

definition py_nth :: "'a list \<Rightarrow> nat \<Rightarrow> error + 'a" where
  "py_nth xs i = (if i < length xs then Inr (xs ! i) else Inl IndexError)"

text \<open>\<^verbatim>\<open>d[k]\<close> on a dictionary: raises KeyError when the key is missing.\<close>

definition py_getitem :: "metadata \<Rightarrow> string \<Rightarrow> error + pyval" where
  "py_getitem d k = (case d k of None \<Rightarrow> Inl (KeyError k) | Some v \<Rightarrow> Inr v)"

text \<open>\<^verbatim>\<open>d.get(k, default)\<close>\<close>

definition py_get :: "metadata \<Rightarrow> string \<Rightarrow> pyval \<Rightarrow> pyval" where
  "py_get d k dflt = (case d k of None \<Rightarrow> dflt | Some v \<Rightarrow> v)"

subsection \<open>White space, \<^verbatim>\<open>strip\<close>, \<^verbatim>\<open>splitlines\<close> and \<^verbatim>\<open>split\<close>\<close>

text \<open>
  Python's white space characters, in UTF-8: the bytes 09 to 0D, 1C to 1F and 20 (one
  byte); C2 85 and C2 A0 (U+0085, U+00A0); E1 9A 80 (U+1680), E2 80 80 to E2 80 8A
  (U+2000 to U+200A), E2 80 A8, E2 80 A9, E2 80 AF (U+2028, U+2029, U+202F), E2 81 9F
  (U+205F) and E3 80 80 (U+3000).
\<close>

definition ws_one :: "char \<Rightarrow> bool" where
  "ws_one a = (a \<in> set [CHR 0x09, CHR 0x0A, CHR 0x0B, CHR 0x0C, CHR 0x0D,
                          CHR 0x1C, CHR 0x1D, CHR 0x1E, CHR 0x1F, CHR 0x20])"

definition ws_two :: "char \<Rightarrow> char \<Rightarrow> bool" where
  "ws_two a b = (a = CHR 0xC2 \<and> (b = CHR 0x85 \<or> b = CHR 0xA0))"

definition ws_three :: "char \<Rightarrow> char \<Rightarrow> char \<Rightarrow> bool" where
  "ws_three a b c =
     (a = CHR 0xE1 \<and> b = CHR 0x9A \<and> c = CHR 0x80
      \<or> a = CHR 0xE2 \<and> b = CHR 0x80
          \<and> (0x80 \<le> (of_char c :: nat) \<and> (of_char c :: nat) \<le> 0x8A
               \<or> c = CHR 0xA8 \<or> c = CHR 0xA9 \<or> c = CHR 0xAF)
      \<or> a = CHR 0xE2 \<and> b = CHR 0x81 \<and> c = CHR 0x9F
      \<or> a = CHR 0xE3 \<and> b = CHR 0x80 \<and> c = CHR 0x80)"

text \<open>\<^verbatim>\<open>s.lstrip()\<close>\<close>

fun lstrip :: "string \<Rightarrow> string" where
  "lstrip (a # b # c # s) =
     (if ws_one a then lstrip (b # c # s)
      else if ws_two a b then lstrip (c # s)
      else if ws_three a b c then lstrip s
      else a # b # c # s)"
| "lstrip [a, b] = (if ws_one a then lstrip [b] else if ws_two a b then [] else [a, b])"
| "lstrip [a] = (if ws_one a then [] else [a])"
| "lstrip [] = []"

text \<open>The same on the reversed string, where the last byte of a character comes first.\<close>

fun lstrip_reversed :: "string \<Rightarrow> string" where
  "lstrip_reversed (c # b # a # s) =
     (if ws_one c then lstrip_reversed (b # a # s)
      else if ws_two b c then lstrip_reversed (a # s)
      else if ws_three a b c then lstrip_reversed s
      else c # b # a # s)"
| "lstrip_reversed [b, a] =
     (if ws_one b then lstrip_reversed [a] else if ws_two a b then [] else [b, a])"
| "lstrip_reversed [a] = (if ws_one a then [] else [a])"
| "lstrip_reversed [] = []"

text \<open>\<^verbatim>\<open>s.strip()\<close>\<close>

definition strip :: "string \<Rightarrow> string" where
  "strip s = rev (lstrip_reversed (rev (lstrip s)))"

text \<open>
  \<^verbatim>\<open>s.splitlines()\<close>. A line ends at CR LF, CR, LF, VT, FF, FS, GS, RS, U+0085, U+2028
  or U+2029; \<open>eol_width\<close> is the number of bytes of the line end at the head of the
  string, 0 when there is none. The line ends are not part of the lines.
\<close>

fun eol_width :: "string \<Rightarrow> nat" where
  "eol_width [] = 0"
| "eol_width (a # s) =
     (if a = CHR 0x0D then (case s of b # _ \<Rightarrow> if b = CHR 0x0A then 2 else 1 | [] \<Rightarrow> 1)
      else if a \<in> set [CHR 0x0A, CHR 0x0B, CHR 0x0C, CHR 0x1C, CHR 0x1D, CHR 0x1E] then 1
      else (case s of
              [] \<Rightarrow> 0
            | b # s' \<Rightarrow>
                if a = CHR 0xC2 \<and> b = CHR 0x85 then 2
                else (case s' of
                        [] \<Rightarrow> 0
                      | c # _ \<Rightarrow>
                          if a = CHR 0xE2 \<and> b = CHR 0x80 \<and> (c = CHR 0xA8 \<or> c = CHR 0xA9) then 3
                          else 0)))"

function splitlines_from :: "string \<Rightarrow> string \<Rightarrow> string list" where
  "splitlines_from line [] = (if line = [] then [] else [line])"
| "splitlines_from line (a # s) =
     (if eol_width (a # s) = 0 then splitlines_from (line @ [a]) s
      else line # splitlines_from [] (drop (eol_width (a # s)) (a # s)))"
  by pat_completeness auto
termination
  by (relation "measure (\<lambda>(line, s). length s)") auto

definition splitlines :: "string \<Rightarrow> string list" where
  "splitlines s = splitlines_from [] s"

text \<open>\<^verbatim>\<open>s.split("  ")\<close>, the split at every two spaces, from the left.\<close>

fun split_from :: "string \<Rightarrow> string \<Rightarrow> string list" where
  "split_from phrase (a # b # s) =
     (if a = CHR '' '' \<and> b = CHR '' '' then phrase # split_from [] s
      else split_from (phrase @ [a]) (b # s))"
| "split_from phrase s = [phrase @ s]"

definition split_double_space :: "string \<Rightarrow> string list" where
  "split_double_space s = split_from [] s"

section \<open>Calls that may raise and that change the outside world\<close>

text \<open>
  The vector database, the embedding service and the file readers are outside the
  program. A call to one of them takes the state of the outside world \<open>'w\<close> and gives
  either an exception (\<open>Inl\<close>) or a value (\<open>Inr\<close>), and the world after the call: also
  a call that raises may have changed the world. An operation of the program is such an
  action too; its result \<open>Inl e\<close> says that the exception \<open>e\<close> leaves the operation.
\<close>

type_synonym ('a, 'w) action = "'w \<Rightarrow> (error + 'a) \<times> 'w"

definition ret :: "'a \<Rightarrow> ('a, 'w) action" where
  "ret v w = (Inr v, w)"

definition lift :: "error + 'a \<Rightarrow> ('a, 'w) action" where
  "lift r w = (r, w)"

definition and_then :: "('a, 'w) action \<Rightarrow> ('a \<Rightarrow> ('b, 'w) action) \<Rightarrow> ('b, 'w) action" where
  "and_then m f w = (case m w of (Inl e, w') \<Rightarrow> (Inl e, w') | (Inr v, w') \<Rightarrow> f v w')"

text \<open>\<^verbatim>\<open>try: m  except Exception as e: handler(e)\<close>\<close>

definition try_except :: "('a, 'w) action \<Rightarrow> (error \<Rightarrow> ('a, 'w) action) \<Rightarrow> ('a, 'w) action" where
  "try_except m handler w = (case m w of (Inl e, w') \<Rightarrow> handler e w' | (Inr v, w') \<Rightarrow> (Inr v, w'))"

text \<open>A list comprehension whose element expression may raise: the first exception wins.\<close>

fun collect :: "('a \<Rightarrow> error + 'b) \<Rightarrow> 'a list \<Rightarrow> error + 'b list" where
  "collect f [] = Inr []"
| "collect f (x # xs) =
     (case f x of Inl e \<Rightarrow> Inl e
      | Inr y \<Rightarrow> (case collect f xs of Inl e \<Rightarrow> Inl e | Inr ys \<Rightarrow> Inr (y # ys)))"

section \<open>DocumentProcessor\<close>

subsection \<open>\<^verbatim>\<open>split_into_chunks\<close>\<close>

text \<open>
  \<^verbatim>\<open>
  chunks = []
  chunk_index = 0
  for page in pages:
      page_chunks = self.text_splitter.split_text(page["text"])
      for chunk_text in page_chunks:
          chunks.append({"text": chunk_text,
                         "metadata": {**page["metadata"], "chunk_index": chunk_index}})
          chunk_index += 1
  return chunks
  \<close>
  The text splitter is an object of a library; its \<^verbatim>\<open>split_text\<close> is a parameter
  \<open>split_text\<close> of the model. The two loops are two recursive functions over the
  loop state \<open>(chunks, chunk_index)\<close>.
\<close>

fun append_page_chunks :: "doc \<Rightarrow> string list \<Rightarrow> doc list \<times> int \<Rightarrow> doc list \<times> int" where
  "append_page_chunks page [] (chunks, chunk_index) = (chunks, chunk_index)"
| "append_page_chunks page (chunk_text # page_chunks) (chunks, chunk_index) =
     append_page_chunks page page_chunks
       (chunks @ [\<lparr>text = chunk_text,
                   metadata = (metadata page)(''chunk_index'' \<mapsto> PInt chunk_index)\<rparr>],
        chunk_index + 1)"

fun split_pages :: "(string \<Rightarrow> string list) \<Rightarrow> doc list \<Rightarrow> doc list \<times> int \<Rightarrow> doc list \<times> int" where
  "split_pages split_text [] st = st"
| "split_pages split_text (page # pages) st =
     split_pages split_text pages (append_page_chunks page (split_text (text page)) st)"

definition split_into_chunks :: "(string \<Rightarrow> string list) \<Rightarrow> doc list \<Rightarrow> doc list" where
  "split_into_chunks split_text pages = fst (split_pages split_text pages ([], 0))"

subsection \<open>The constructor\<close>

text \<open>
  \<^verbatim>\<open>
  def __init__(self, chunk_size: int = 500, chunk_overlap: int = 100):
      self.chunk_size = chunk_size
      self.chunk_overlap = chunk_overlap
      self.text_splitter = RecursiveCharacterTextSplitter(
          chunk_size=self.chunk_size, chunk_overlap=self.chunk_overlap,
          separators=["\n\n", "\n", <U+3002>, <U+3001>, " ", ""])
  \<close>
  The constructor checks nothing itself. It calls the constructor of the library's
  splitter, which may raise; that constructor is the parameter \<open>splitter_init\<close>.
\<close>

record 'sp document_processor =
  chunk_size :: int
  chunk_overlap :: int
  text_splitter :: 'sp

text \<open>The ideographic full stop U+3002.\<close>

definition lit_kuten :: string where
  "lit_kuten =
     [CHR 0xE3, CHR 0x80, CHR 0x82]"

text \<open>The ideographic comma U+3001.\<close>

definition lit_touten :: string where
  "lit_touten =
     [CHR 0xE3, CHR 0x80, CHR 0x81]"

definition separators :: "string list" where
  "separators = [[CHR 0x0A, CHR 0x0A], [CHR 0x0A], lit_kuten, lit_touten, '' '', []]"

definition DocumentProcessor_init ::
    "(int \<Rightarrow> int \<Rightarrow> string list \<Rightarrow> error + 'sp) \<Rightarrow> int \<Rightarrow> int \<Rightarrow> error + 'sp document_processor" where
  "DocumentProcessor_init splitter_init csize coverlap =
     (case splitter_init csize coverlap separators of
        Inl e \<Rightarrow> Inl e
      | Inr splitter \<Rightarrow>
          Inr \<lparr>chunk_size = csize, chunk_overlap = coverlap, text_splitter = splitter\<rparr>)"

text \<open>
  The splitter's constructor belongs to the library \<^verbatim>\<open>langchain_text_splitters\<close>, not to
  the program. Its argument check, in the library's \<^verbatim>\<open>TextSplitter.__init__\<close>, is
  \<^verbatim>\<open>
  if chunk_size <= 0: raise ValueError(...)
  if chunk_overlap < 0: raise ValueError(...)
  if chunk_overlap > chunk_size: raise ValueError(...)
  \<close>
  and an accepted configuration is stored in the splitter. \<open>TextSplitter_init\<close> is this
  check; it is used where a statement needs the library's constructor, and only there.
\<close>

record splitter_config =
  splitter_chunk_size :: int
  splitter_chunk_overlap :: int
  splitter_separators :: "string list"

definition TextSplitter_init :: "int \<Rightarrow> int \<Rightarrow> string list \<Rightarrow> error + splitter_config" where
  "TextSplitter_init csize coverlap seps =
     (if csize \<le> 0 then Inl ValueError
      else if coverlap < 0 then Inl ValueError
      else if coverlap > csize then Inl ValueError
      else Inr \<lparr>splitter_chunk_size = csize, splitter_chunk_overlap = coverlap,
                splitter_separators = seps\<rparr>)"

subsection \<open>\<^verbatim>\<open>extract_text_from_pdf\<close>\<close>

text \<open>
  The file system and the readers. \<^verbatim>\<open>fitz.open(path)\<close> may raise; an opened document
  gives, page by page, what \<^verbatim>\<open>page.get_text()\<close> returns or raises, and what
  \<^verbatim>\<open>doc.close()\<close> does. \<open>read_text\<close> is \<^verbatim>\<open>open(path, 'r', encoding='utf-8')\<close> with
  \<^verbatim>\<open>f.read()\<close>; \<open>html_text\<close> is the text that the HTML parser extracts from a page
  source, or its exception; \<open>path_name\<close> is \<^verbatim>\<open>Path(path).name\<close>.
\<close>

record pdf_document =
  page_texts :: "(error + string) list"
  close_result :: "error + unit"

record 'w file_system =
  path_name :: "string \<Rightarrow> string"
  fitz_open :: "string \<Rightarrow> (pdf_document, 'w) action"
  read_text :: "string \<Rightarrow> (string, 'w) action"
  html_text :: "string \<Rightarrow> error + string"

text \<open>
  \<^verbatim>\<open>
  for page_num, page in enumerate(doc, start=1):
      text = page.get_text()
      if text.strip():
          pages.append({"text": text, "metadata": {"source": file_name, "page": page_num}})
  \<close>
\<close>

fun extract_pages :: "string \<Rightarrow> int \<Rightarrow> (error + string) list \<Rightarrow> doc list \<Rightarrow> error + doc list" where
  "extract_pages file_name page_num [] pages = Inr pages"
| "extract_pages file_name page_num (page # rest) pages =
     (case page of
        Inl e \<Rightarrow> Inl e
      | Inr t \<Rightarrow>
          extract_pages file_name (page_num + 1) rest
            (if strip t \<noteq> []
             then pages @ [\<lparr>text = t,
                             metadata = [''source'' \<mapsto> PStr file_name, ''page'' \<mapsto> PInt page_num]\<rparr>]
             else pages))"

text \<open>
  \<^verbatim>\<open>
  pages = []
  file_name = Path(pdf_path).name
  try:
      doc = fitz.open(pdf_path)
      for ...
      doc.close()
      return pages
  except Exception as e:
      return []
  \<close>
\<close>

definition extract_text_from_pdf :: "'w file_system \<Rightarrow> string \<Rightarrow> (doc list, 'w) action" where
  "extract_text_from_pdf fs pdf_path =
     (let file_name = path_name fs pdf_path
      in try_except
           (and_then (fitz_open fs pdf_path) (\<lambda>d.
            and_then (lift (extract_pages file_name 1 (page_texts d) [])) (\<lambda>pages.
            and_then (lift (close_result d)) (\<lambda>_.
            ret pages))))
           (\<lambda>e. ret []))"

subsection \<open>\<^verbatim>\<open>extract_text_from_html\<close>\<close>

text \<open>
  \<^verbatim>\<open>
  lines = (line.strip() for line in text.splitlines())
  chunks = (phrase.strip() for line in lines for phrase in line.split("  "))
  text = '\n'.join(chunk for chunk in chunks if chunk)
  \<close>
\<close>

definition collapse_whitespace :: "string \<Rightarrow> string" where
  "collapse_whitespace t =
     (let lines = map strip (splitlines t);
          chunks = concat (map (\<lambda>line. map strip (split_double_space line)) lines)
      in join [CHR 0x0A] (filter (\<lambda>chunk. chunk \<noteq> []) chunks))"

text \<open>
  \<^verbatim>\<open>
  file_name = Path(html_path).name
  try:
      with open(html_path, 'r', encoding='utf-8') as f:
          html_content = f.read()
      soup = BeautifulSoup(html_content, 'html.parser')
      for script in soup(['script', 'style']):
          script.decompose()
      text = soup.get_text()
      ... (the three lines above)
      if text.strip():
          return [{"text": text, "metadata": {"source": file_name, "page": 1}}]
      else:
          return []
  except Exception as e:
      return []
  \<close>
  Reading the file is \<open>read_text\<close>; parsing, removing the script and style elements
  and taking the text is \<open>html_text\<close>, the HTML library's part.
\<close>

definition extract_text_from_html :: "'w file_system \<Rightarrow> string \<Rightarrow> (doc list, 'w) action" where
  "extract_text_from_html fs html_path =
     (let file_name = path_name fs html_path
      in try_except
           (and_then (read_text fs html_path) (\<lambda>html_content.
            and_then (lift (html_text fs html_content)) (\<lambda>t.
              let t' = collapse_whitespace t
              in if strip t' \<noteq> []
                 then ret [\<lparr>text = t',
                            metadata = [''source'' \<mapsto> PStr file_name, ''page'' \<mapsto> PInt 1]\<rparr>]
                 else ret [])))
           (\<lambda>e. ret []))"

subsection \<open>\<^verbatim>\<open>process_pdf\<close> and \<^verbatim>\<open>process_html\<close>\<close>

text \<open>
  \<^verbatim>\<open>
  pages = self.extract_text_from_pdf(pdf_path)
  if not pages:
      return []
  chunks = self.split_into_chunks(pages)
  return chunks
  \<close>
  and the same with \<^verbatim>\<open>extract_text_from_html\<close>.
\<close>

definition process_pdf ::
    "'w file_system \<Rightarrow> (string \<Rightarrow> string list) \<Rightarrow> string \<Rightarrow> (doc list, 'w) action" where
  "process_pdf fs split_text pdf_path =
     and_then (extract_text_from_pdf fs pdf_path) (\<lambda>pages.
       if pages = [] then ret [] else ret (split_into_chunks split_text pages))"

definition process_html ::
    "'w file_system \<Rightarrow> (string \<Rightarrow> string list) \<Rightarrow> string \<Rightarrow> (doc list, 'w) action" where
  "process_html fs split_text html_path =
     and_then (extract_text_from_html fs html_path) (\<lambda>pages.
       if pages = [] then ret [] else ret (split_into_chunks split_text pages))"

section \<open>ChromaManager\<close>

type_synonym embedding = "real list"

text \<open>
  What \<^verbatim>\<open>collection.query(..., include=["documents", "metadatas", "distances"])\<close>
  returns: for each query embedding one list of documents, of metadatas and of distances.
\<close>

record query_result =
  documents :: "string list list"
  metadatas :: "metadata list list"
  distances :: "real list list"

text \<open>
  The library objects a ChromaManager holds: \<^verbatim>\<open>self.embeddings\<close> (\<open>embed_documents\<close>,
  \<open>embed_query\<close>) and \<^verbatim>\<open>self.collection\<close> (\<open>add\<close>, \<open>query\<close>, \<open>count\<close>). Their behaviour is
  not part of the program: they are parameters.
\<close>

record 'w backend =
  embed_documents :: "string list \<Rightarrow> (embedding list, 'w) action"
  embed_query :: "string \<Rightarrow> (embedding, 'w) action"
  collection_add :: "string list \<Rightarrow> embedding list \<Rightarrow> string list \<Rightarrow> metadata list \<Rightarrow> (unit, 'w) action"
  collection_query :: "embedding list \<Rightarrow> int \<Rightarrow> (query_result, 'w) action"
  collection_count :: "(int, 'w) action"

subsection \<open>\<^verbatim>\<open>add_documents\<close>\<close>

text \<open>
  \<^verbatim>\<open>f"{chunk['metadata']['source']}_{chunk['metadata']['page']}_{chunk['metadata']['chunk_index']}"\<close>
\<close>

definition record_id :: "doc \<Rightarrow> error + string" where
  "record_id chunk =
     (case py_getitem (metadata chunk) ''source'' of Inl e \<Rightarrow> Inl e
      | Inr source \<Rightarrow>
     (case py_getitem (metadata chunk) ''page'' of Inl e \<Rightarrow> Inl e
      | Inr page \<Rightarrow>
     (case py_getitem (metadata chunk) ''chunk_index'' of Inl e \<Rightarrow> Inl e
      | Inr chunk_index \<Rightarrow>
          Inr (py_str source @ ''_'' @ py_str page @ ''_'' @ py_str chunk_index))))"

text \<open>
  \<^verbatim>\<open>
  if not chunks:
      return False
  try:
      texts = [chunk["text"] for chunk in chunks]
      metadatas = [chunk["metadata"] for chunk in chunks]
      ids = [f"..." for chunk in chunks]
      embeddings = self.embeddings.embed_documents(texts)
      self.collection.add(ids=ids, embeddings=embeddings, documents=texts, metadatas=metadatas)
      print(... self.collection.count() ...)
      return True
  except Exception as e:
      return False
  \<close>
  The messages printed are left out, the call \<^verbatim>\<open>self.collection.count()\<close> that one of
  them makes inside the \<^verbatim>\<open>try\<close> is not.
\<close>

definition add_documents :: "'w backend \<Rightarrow> doc list \<Rightarrow> (bool, 'w) action" where
  "add_documents bk chunks =
     (if chunks = [] then ret False
      else try_except
        (let texts = map text chunks;
             metas = map metadata chunks
         in and_then (lift (collect record_id chunks)) (\<lambda>ids.
            and_then (embed_documents bk texts) (\<lambda>embeddings.
            and_then (collection_add bk ids embeddings texts metas) (\<lambda>_.
            and_then (collection_count bk) (\<lambda>_.
            ret True)))))
        (\<lambda>e. ret False))"

subsection \<open>\<^verbatim>\<open>search\<close>\<close>

text \<open>
  \<^verbatim>\<open>
  for i in range(len(results["documents"][0])):
      formatted_results.append({"text": results["documents"][0][i],
                                "metadata": results["metadatas"][0][i],
                                "distance": results["distances"][0][i]})
  \<close>
\<close>

fun format_results :: "query_result \<Rightarrow> nat list \<Rightarrow> search_result list \<Rightarrow> error + search_result list" where
  "format_results results [] formatted_results = Inr formatted_results"
| "format_results results (i # indices) formatted_results =
     (case py_nth (documents results) 0 of Inl e \<Rightarrow> Inl e | Inr documents0 \<Rightarrow>
     (case py_nth documents0 i of Inl e \<Rightarrow> Inl e | Inr t \<Rightarrow>
     (case py_nth (metadatas results) 0 of Inl e \<Rightarrow> Inl e | Inr metadatas0 \<Rightarrow>
     (case py_nth metadatas0 i of Inl e \<Rightarrow> Inl e | Inr m \<Rightarrow>
     (case py_nth (distances results) 0 of Inl e \<Rightarrow> Inl e | Inr distances0 \<Rightarrow>
     (case py_nth distances0 i of Inl e \<Rightarrow> Inl e | Inr d \<Rightarrow>
        format_results results indices
          (formatted_results @ [\<lparr>text = t, metadata = m, distance = d\<rparr>])))))))"

text \<open>
  \<^verbatim>\<open>
  try:
      query_embedding = self.embeddings.embed_query(query)
      results = self.collection.query(query_embeddings=[query_embedding],
                                      n_results=n_results, include=[...])
      formatted_results = []
      if results["documents"] and results["documents"][0]:
          for i in range(len(results["documents"][0])): ...
      return formatted_results
  except Exception as e:
      return []
  \<close>
\<close>

definition search :: "'w backend \<Rightarrow> string \<Rightarrow> int \<Rightarrow> (search_result list, 'w) action" where
  "search bk query n_results =
     try_except
       (and_then (embed_query bk query) (\<lambda>query_embedding.
        and_then (collection_query bk [query_embedding] n_results) (\<lambda>results.
        lift (case documents results of
                [] \<Rightarrow> Inr []
              | documents0 # _ \<Rightarrow>
                  if documents0 = [] then Inr []
                  else format_results results [0..<length documents0] []))))
       (\<lambda>e. ret [])"

subsection \<open>\<^verbatim>\<open>search_with_threshold\<close>\<close>

text \<open>
  \<^verbatim>\<open>
  results = self.search(query, n_results)
  if not results:
      return [], False
  best_distance = results[0]["distance"]
  if best_distance <= threshold:
      return results, True
  else:
      return [], False
  \<close>
  Distances and the threshold are Python floats; they are only compared, and the model
  takes them as real numbers.
\<close>

definition search_with_threshold ::
    "'w backend \<Rightarrow> string \<Rightarrow> real \<Rightarrow> int \<Rightarrow> (search_result list \<times> bool, 'w) action" where
  "search_with_threshold bk query threshold n_results =
     and_then (search bk query n_results) (\<lambda>results.
       if results = [] then ret ([], False)
       else and_then (lift (py_nth results 0)) (\<lambda>best.
         let best_distance = distance best
         in if best_distance \<le> threshold then ret (results, True)
            else ret ([], False)))"

section \<open>RAGManager\<close>

text \<open>
  Of the fields of a RAGManager the retrieval reads the threshold; the document
  processor and the Chroma manager it holds are the parameters \<open>split_text\<close> and \<open>bk\<close>.
\<close>

record rag_manager =
  documents_dir :: string
  threshold :: real

text \<open>
  \<^verbatim>\<open>
  def query(self, user_question, n_results=3):
      return self.chroma_manager.search_with_threshold(
          query=user_question, threshold=self.threshold, n_results=n_results)
  \<close>
\<close>

definition query ::
    "rag_manager \<Rightarrow> 'w backend \<Rightarrow> string \<Rightarrow> int \<Rightarrow> (search_result list \<times> bool, 'w) action" where
  "query self bk user_question n_results =
     search_with_threshold bk user_question (threshold self) n_results"

subsection \<open>\<^verbatim>\<open>process_and_store_pdf\<close>\<close>

text \<open>
  \<^verbatim>\<open>
  chunks = self.document_processor.process_pdf(pdf_path)
  if not chunks:
      return False
  result = self.chroma_manager.add_documents(chunks)
  return result
  \<close>
\<close>

definition process_and_store_pdf ::
    "'w file_system \<Rightarrow> (string \<Rightarrow> string list) \<Rightarrow> 'w backend \<Rightarrow> string \<Rightarrow> (bool, 'w) action" where
  "process_and_store_pdf fs split_text bk pdf_path =
     and_then (process_pdf fs split_text pdf_path) (\<lambda>chunks.
       if chunks = [] then ret False else add_documents bk chunks)"

subsection \<open>\<^verbatim>\<open>build_rag_context\<close>\<close>

text \<open>The default source, the two characters U+4E0D U+660E ("unknown").\<close>

definition lit_unknown :: string where
  "lit_unknown =
     [CHR 0xE4, CHR 0xB8, CHR 0x8D, CHR 0xE6, CHR 0x98, CHR 0x8E]"

text \<open>The opening of a block: U+3010 and the four characters of "reference material".\<close>

definition lit_ref_open :: string where
  "lit_ref_open =
     [CHR 0xE3, CHR 0x80, CHR 0x90, CHR 0xE5, CHR 0x8F, CHR 0x82, CHR 0xE7, CHR 0x85, CHR 0xA7,
     CHR 0xE8, CHR 0xB3, CHR 0x87, CHR 0xE6, CHR 0x96, CHR 0x99]"

text \<open>U+3011 and an opening parenthesis.\<close>

definition lit_ref_close :: string where
  "lit_ref_close =
     [CHR 0xE3, CHR 0x80, CHR 0x91] @ ''(''"

text \<open>A slash between spaces and the three katakana of "page".\<close>

definition lit_page :: string where
  "lit_page =
     '' / '' @ [CHR 0xE3, CHR 0x83, CHR 0x9A, CHR 0xE3, CHR 0x83, CHR 0xBC, CHR 0xE3, CHR 0x82,
     CHR 0xB8]"

text \<open>
  \<^verbatim>\<open>
  for i, result in enumerate(search_results, start=1):
      source = result["metadata"].get("source", <lit_unknown>)
      page = result["metadata"].get("page", "?")
      text = result["text"]
      context_parts.append(f"<lit_ref_open>{i}<lit_ref_close>{source}<lit_page>{page})\n{text}")
  \<close>
\<close>

fun context_parts_loop :: "nat \<Rightarrow> search_result list \<Rightarrow> string list \<Rightarrow> string list" where
  "context_parts_loop i [] context_parts = context_parts"
| "context_parts_loop i (result # rest) context_parts =
     (let source = py_get (metadata result) ''source'' (PStr lit_unknown);
          page = py_get (metadata result) ''page'' (PStr ''?'');
          t = text result
      in context_parts_loop (i + 1) rest
           (context_parts @
            [lit_ref_open @ str_int (int i) @ lit_ref_close @ py_str source @ lit_page
               @ py_str page @ '')'' @ [CHR 0x0A] @ t]))"

text \<open>
  \<^verbatim>\<open>
  if not search_results:
      return ""
  context_parts = []
  for ...
  return "\n\n".join(context_parts)
  \<close>
\<close>

definition build_rag_context :: "search_result list \<Rightarrow> string" where
  "build_rag_context results =
     (if results = [] then []
      else join [CHR 0x0A, CHR 0x0A] (context_parts_loop 1 results []))"

subsection \<open>\<^verbatim>\<open>build_rag_prompt\<close>\<close>

text \<open>The template up to \<^verbatim>\<open>{context}\<close>: the instruction, the four rules and the header line of the reference material.\<close>

definition prompt_head :: string where
  "prompt_head =
     [CHR 0xE4, CHR 0xBB, CHR 0xA5, CHR 0xE4, CHR 0xB8, CHR 0x8B, CHR 0xE3, CHR 0x81, CHR 0xAE,
     CHR 0xE5, CHR 0x8F, CHR 0x82, CHR 0xE7, CHR 0x85, CHR 0xA7, CHR 0xE8, CHR 0xB3, CHR 0x87,
     CHR 0xE6, CHR 0x96, CHR 0x99, CHR 0xE3, CHR 0x81, CHR 0xAB, CHR 0xE5, CHR 0x9F, CHR 0xBA,
     CHR 0xE3, CHR 0x81, CHR 0xA5, CHR 0xE3, CHR 0x81, CHR 0x84, CHR 0xE3, CHR 0x81, CHR 0xA6,
     CHR 0xE3, CHR 0x80, CHR 0x81, CHR 0xE3, CHR 0x83, CHR 0xA6, CHR 0xE3, CHR 0x83, CHR 0xBC,
     CHR 0xE3, CHR 0x82, CHR 0xB6, CHR 0xE3, CHR 0x83, CHR 0xBC, CHR 0xE3, CHR 0x81, CHR 0xAE,
     CHR 0xE8, CHR 0xB3, CHR 0xAA, CHR 0xE5, CHR 0x95, CHR 0x8F, CHR 0xE3, CHR 0x81, CHR 0xAB,
     CHR 0xE5, CHR 0x9B, CHR 0x9E, CHR 0xE7, CHR 0xAD, CHR 0x94, CHR 0xE3, CHR 0x81, CHR 0x97,
     CHR 0xE3, CHR 0x81, CHR 0xA6, CHR 0xE3, CHR 0x81, CHR 0x8F, CHR 0xE3, CHR 0x81, CHR 0xA0,
     CHR 0xE3, CHR 0x81, CHR 0x95, CHR 0xE3, CHR 0x81, CHR 0x84, CHR 0xE3, CHR 0x80,
     CHR 0x82] @ ''    '' @ [CHR 0x0A, CHR 0x0A, CHR 0xE3, CHR 0x80, CHR 0x90, CHR 0xE9,
     CHR 0x87, CHR 0x8D, CHR 0xE8, CHR 0xA6, CHR 0x81, CHR 0xE3, CHR 0x81, CHR 0xAA, CHR 0xE3,
     CHR 0x83, CHR 0xAB, CHR 0xE3, CHR 0x83, CHR 0xBC, CHR 0xE3, CHR 0x83, CHR 0xAB, CHR 0xE3,
     CHR 0x80, CHR 0x91, CHR 0x0A] @ ''1. NSC'' @ [CHR 0xE6, CHR 0xA5, CHR 0xAD, CHR 0xE5,
     CHR 0x8B, CHR 0x99, CHR 0xE3, CHR 0x83, CHR 0x95, CHR 0xE3, CHR 0x83, CHR 0xAD, CHR 0xE3,
     CHR 0x83, CHR 0xBC, CHR 0xE3, CHR 0x81, CHR 0xAB, CHR 0xE5, CHR 0x9F, CHR 0xBA, CHR 0xE3,
     CHR 0x81, CHR 0xA5, CHR 0xE3, CHR 0x81, CHR 0x8D, CHR 0xE3, CHR 0x80, CHR 0x81, CHR 0xE3,
     CHR 0x81, CHR 0xBE, CHR 0xE3, CHR 0x81, CHR 0x9F, CHR 0xE3, CHR 0x81, CHR 0xAF, CHR 0xE3,
     CHR 0x83, CHR 0x8D, CHR 0xE3, CHR 0x83, CHR 0x83, CHR 0xE3, CHR 0x83, CHR 0x88, CHR 0xE3,
     CHR 0x82, CHR 0xB5, CHR 0xE3, CHR 0x83, CHR 0xBC, CHR 0xE3, CHR 0x83, CHR 0x93, CHR 0xE3,
     CHR 0x82, CHR 0xB9, CHR 0xE3, CHR 0x82, CHR 0xBB, CHR 0xE3, CHR 0x83, CHR 0xB3, CHR 0xE3,
     CHR 0x82, CHR 0xBF, CHR 0xE3, CHR 0x83, CHR 0xBC, CHR 0xE3, CHR 0x81, CHR 0xAE, CHR 0xE3,
     CHR 0x83, CHR 0xAD, CHR 0xE3, CHR 0x83, CHR 0xBC, CHR 0xE3, CHR 0x82, CHR 0xAB, CHR 0xE3,
     CHR 0x83, CHR 0xAB, CHR 0xE3, CHR 0x83, CHR 0xAB, CHR 0xE3, CHR 0x83, CHR 0xBC, CHR 0xE3,
     CHR 0x83, CHR 0xAB, CHR 0xE3, CHR 0x81, CHR 0xAB, CHR 0xE3, CHR 0x82, CHR 0x88, CHR 0xE3,
     CHR 0x82, CHR 0x8B, CHR 0xE3, CHR 0x81, CHR 0xA8, CHR 0xE3, CHR 0x80, CHR 0x81, CHR 0xE3,
     CHR 0x81, CHR 0xA8, CHR 0xE3, CHR 0x81, CHR 0x84, CHR 0xE3, CHR 0x81, CHR 0x86, CHR 0xE6,
     CHR 0x8E, CHR 0xA5, CHR 0xE9, CHR 0xA0, CHR 0xAD, CHR 0xE8, CHR 0xAA, CHR 0x9E, CHR 0xE3,
     CHR 0x82, CHR 0x92, CHR 0xE4, CHR 0xBB, CHR 0x98, CHR 0xE3, CHR 0x81, CHR 0x91, CHR 0xE3,
     CHR 0x81, CHR 0xA6, CHR 0xE5, CHR 0x9B, CHR 0x9E, CHR 0xE7, CHR 0xAD, CHR 0x94, CHR 0xE3,
     CHR 0x81, CHR 0x97, CHR 0xE3, CHR 0x81, CHR 0xA6, CHR 0xE3, CHR 0x81, CHR 0x8F, CHR 0xE3,
     CHR 0x81, CHR 0xA0, CHR 0xE3, CHR 0x81, CHR 0x95, CHR 0xE3, CHR 0x81, CHR 0x84,
     CHR 0x0A] @ ''2. '' @ [CHR 0xE5, CHR 0x8F, CHR 0x82, CHR 0xE7, CHR 0x85, CHR 0xA7,
     CHR 0xE8, CHR 0xB3, CHR 0x87, CHR 0xE6, CHR 0x96, CHR 0x99, CHR 0xE3, CHR 0x81, CHR 0xAB,
     CHR 0xE6, CHR 0x9B, CHR 0xB8, CHR 0xE3, CHR 0x81, CHR 0x8B, CHR 0xE3, CHR 0x82, CHR 0x8C,
     CHR 0xE3, CHR 0x81, CHR 0xA6, CHR 0xE3, CHR 0x81, CHR 0x84, CHR 0xE3, CHR 0x82, CHR 0x8B,
     CHR 0xE6, CHR 0x83, CHR 0x85, CHR 0xE5, CHR 0xA0, CHR 0xB1, CHR 0xE3, CHR 0x81, CHR 0xAE,
     CHR 0xE3, CHR 0x81, CHR 0xBF, CHR 0xE3, CHR 0x82, CHR 0x92, CHR 0xE4, CHR 0xBD, CHR 0xBF,
     CHR 0xE7, CHR 0x94, CHR 0xA8, CHR 0xE3, CHR 0x81, CHR 0x97, CHR 0xE3, CHR 0x81, CHR 0xA6,
     CHR 0xE3, CHR 0x81, CHR 0x8F, CHR 0xE3, CHR 0x81, CHR 0xA0, CHR 0xE3, CHR 0x81, CHR 0x95,
     CHR 0xE3, CHR 0x81, CHR 0x84, CHR 0x0A] @ ''3. '' @ [CHR 0xE5, CHR 0x8F, CHR 0x82,
     CHR 0xE7, CHR 0x85, CHR 0xA7, CHR 0xE8, CHR 0xB3, CHR 0x87, CHR 0xE6, CHR 0x96, CHR 0x99,
     CHR 0xE3, CHR 0x81, CHR 0xAB, CHR 0xE3, CHR 0x81, CHR 0xAA, CHR 0xE3, CHR 0x81, CHR 0x84,
     CHR 0xE6, CHR 0x83, CHR 0x85, CHR 0xE5, CHR 0xA0, CHR 0xB1, CHR 0xE3, CHR 0x81, CHR 0xAF,
     CHR 0xE3, CHR 0x80, CHR 0x8C, CHR 0xE8, CHR 0xB3, CHR 0x87, CHR 0xE6, CHR 0x96, CHR 0x99,
     CHR 0xE3, CHR 0x81, CHR 0xAB, CHR 0xE8, CHR 0xA8, CHR 0x98, CHR 0xE8, CHR 0xBC, CHR 0x89,
     CHR 0xE3, CHR 0x81, CHR 0x8C, CHR 0xE3, CHR 0x81, CHR 0x82, CHR 0xE3, CHR 0x82, CHR 0x8A,
     CHR 0xE3, CHR 0x81, CHR 0xBE, CHR 0xE3, CHR 0x81, CHR 0x9B, CHR 0xE3, CHR 0x82, CHR 0x93,
     CHR 0xE3, CHR 0x80, CHR 0x8D, CHR 0xE3, CHR 0x81, CHR 0xA8, CHR 0xE4, CHR 0xBC, CHR 0x9D,
     CHR 0xE3, CHR 0x81, CHR 0x88, CHR 0xE3, CHR 0x81, CHR 0xA6, CHR 0xE3, CHR 0x81, CHR 0x8F,
     CHR 0xE3, CHR 0x81, CHR 0xA0, CHR 0xE3, CHR 0x81, CHR 0x95, CHR 0xE3, CHR 0x81, CHR 0x84,
     CHR 0x0A] @ ''4. '' @ [CHR 0xE5, CHR 0x85, CHR 0xB7, CHR 0xE4, CHR 0xBD, CHR 0x93,
     CHR 0xE7, CHR 0x9A, CHR 0x84, CHR 0xE3, CHR 0x81, CHR 0xAA, CHR 0xE3, CHR 0x82, CHR 0xB3,
     CHR 0xE3, CHR 0x83, CHR 0xBC, CHR 0xE3, CHR 0x83, CHR 0x89, CHR 0xE5, CHR 0x90, CHR 0x8D,
     CHR 0xE3, CHR 0x82, CHR 0x84, CHR 0xE3, CHR 0x83, CHR 0xAB, CHR 0xE3, CHR 0x83, CHR 0xBC,
     CHR 0xE3, CHR 0x83, CHR 0xAB, CHR 0xE5, CHR 0x90, CHR 0x8D, CHR 0xE3, CHR 0x81, CHR 0x8C,
     CHR 0xE3, CHR 0x81, CHR 0x82, CHR 0xE3, CHR 0x82, CHR 0x8B, CHR 0xE5, CHR 0xA0, CHR 0xB4,
     CHR 0xE5, CHR 0x90, CHR 0x88, CHR 0xE3, CHR 0x81, CHR 0xAF, CHR 0xE3, CHR 0x80, CHR 0x81,
     CHR 0xE3, CHR 0x81, CHR 0x9D, CHR 0xE3, CHR 0x82, CHR 0x8C, CHR 0xE3, CHR 0x82, CHR 0x92,
     CHR 0xE6, CHR 0x98, CHR 0x8E, CHR 0xE8, CHR 0xA8, CHR 0x98, CHR 0xE3, CHR 0x81, CHR 0x97,
     CHR 0xE3, CHR 0x81, CHR 0xA6, CHR 0xE3, CHR 0x81, CHR 0x8F, CHR 0xE3, CHR 0x81, CHR 0xA0,
     CHR 0xE3, CHR 0x81, CHR 0x95, CHR 0xE3, CHR 0x81, CHR 0x84, CHR 0x0A,
     CHR 0x0A] @ ''===== '' @ [CHR 0xE5, CHR 0x8F, CHR 0x82, CHR 0xE7, CHR 0x85, CHR 0xA7,
     CHR 0xE8, CHR 0xB3, CHR 0x87, CHR 0xE6, CHR 0x96, CHR 0x99] @ '' ====='' @ [CHR 0x0A]"

text \<open>The template between \<^verbatim>\<open>{context}\<close> and \<^verbatim>\<open>{user_question}\<close>.\<close>

definition prompt_middle :: string where
  "prompt_middle =
     [CHR 0x0A] @ ''===================='' @ [CHR 0x0A, CHR 0x0A, CHR 0xE3, CHR 0x83, CHR 0xA6,
     CHR 0xE3, CHR 0x83, CHR 0xBC, CHR 0xE3, CHR 0x82, CHR 0xB6, CHR 0xE3, CHR 0x83, CHR 0xBC,
     CHR 0xE3, CHR 0x81, CHR 0xAE, CHR 0xE8, CHR 0xB3, CHR 0xAA, CHR 0xE5, CHR 0x95,
     CHR 0x8F] @ '': ''"

text \<open>The template after \<^verbatim>\<open>{user_question}\<close>.\<close>

definition prompt_tail :: string where
  "prompt_tail =
     [CHR 0x0A, CHR 0x0A, CHR 0xE4, CHR 0xB8, CHR 0x8A, CHR 0xE8, CHR 0xA8, CHR 0x98, CHR 0xE3,
     CHR 0x81, CHR 0xAE, CHR 0xE5, CHR 0x8F, CHR 0x82, CHR 0xE7, CHR 0x85, CHR 0xA7, CHR 0xE8,
     CHR 0xB3, CHR 0x87, CHR 0xE6, CHR 0x96, CHR 0x99, CHR 0xE3, CHR 0x81, CHR 0xAB, CHR 0xE5,
     CHR 0x9F, CHR 0xBA, CHR 0xE3, CHR 0x81, CHR 0xA5, CHR 0xE3, CHR 0x81, CHR 0x84, CHR 0xE3,
     CHR 0x81, CHR 0xA6, CHR 0xE5, CHR 0x9B, CHR 0x9E, CHR 0xE7, CHR 0xAD, CHR 0x94, CHR 0xE3,
     CHR 0x81, CHR 0x97, CHR 0xE3, CHR 0x81, CHR 0xA6, CHR 0xE3, CHR 0x81, CHR 0x8F, CHR 0xE3,
     CHR 0x81, CHR 0xA0, CHR 0xE3, CHR 0x81, CHR 0x95, CHR 0xE3, CHR 0x81, CHR 0x84] @ '':''"

definition build_rag_prompt :: "string \<Rightarrow> string \<Rightarrow> string" where
  "build_rag_prompt user_question ctx =
     prompt_head @ ctx @ prompt_middle @ user_question @ prompt_tail"

subsection \<open>\<^verbatim>\<open>get_rag_response_data\<close>\<close>

record rag_response =
  use_rag :: bool
  "context" :: string
  prompt :: string
  search_results :: "search_result list"

text \<open>
  \<^verbatim>\<open>
  results, use_rag = self.query(user_question)
  if not use_rag:
      return {"use_rag": False, "context": "", "prompt": "", "search_results": []}
  context = self.build_rag_context(results)
  prompt = self.build_rag_prompt(user_question, context)
  return {"use_rag": True, "context": context, "prompt": prompt, "search_results": results}
  \<close>
\<close>

definition get_rag_response_data ::
    "rag_manager \<Rightarrow> 'w backend \<Rightarrow> string \<Rightarrow> (rag_response, 'w) action" where
  "get_rag_response_data self bk user_question =
     and_then (query self bk user_question 3) (\<lambda>(results, flag).
       if \<not> flag
       then ret \<lparr>use_rag = False, context = [], prompt = [], search_results = []\<rparr>
       else
         let ctx = build_rag_context results;
             p = build_rag_prompt user_question ctx
         in ret \<lparr>use_rag = True, context = ctx, prompt = p, search_results = results\<rparr>)"

section \<open>Stand-ins for the services, for concrete runs\<close>

text \<open>
  A world that only counts the calls made to it. Every call succeeds; a query returns
  the given answer.
\<close>

definition counting_backend :: "query_result \<Rightarrow> nat backend" where
  "counting_backend answer =
     \<lparr>embed_documents = (\<lambda>texts n. (Inr (map (\<lambda>t. [real (length t)]) texts), Suc n)),
      embed_query = (\<lambda>q n. (Inr [real (length q)], Suc n)),
      collection_add = (\<lambda>ids embs docs metas n. (Inr (), Suc n)),
      collection_query = (\<lambda>qes k n. (Inr answer, Suc n)),
      collection_count = (\<lambda>n. (Inr 0, Suc n))\<rparr>"

text \<open>A file system on which no file can be opened.\<close>

definition unreadable_files :: "unit file_system" where
  "unreadable_files =
     \<lparr>path_name = (\<lambda>p. p),
      fitz_open = (\<lambda>p w. (Inl LibraryError, w)),
      read_text = (\<lambda>p w. (Inl LibraryError, w)),
      html_text = (\<lambda>t. Inr t)\<rparr>"

text \<open>
  Files that can be opened and not read to the end: the second page of a PDF raises,
  and the HTML parser raises.
\<close>

definition torn_files :: "unit file_system" where
  "torn_files =
     \<lparr>path_name = (\<lambda>p. p),
      fitz_open = (\<lambda>p w.
        (Inr \<lparr>page_texts = [Inr ''page one'', Inl LibraryError], close_result = Inr ()\<rparr>, w)),
      read_text = (\<lambda>p w. (Inr ''<html'', w)),
      html_text = (\<lambda>t. Inl LibraryError)\<rparr>"

text \<open>The answer of a query to an empty collection.\<close>

definition no_answer :: query_result where
  "no_answer = \<lparr>documents = [[]], metadatas = [[]], distances = [[]]\<rparr>"

text \<open>
  A collection held in memory: the list of its records, in the order of insertion.
  Its \<open>add\<close> is the insertion of the vector database (\<^verbatim>\<open>Collection.add\<close>, which the
  program calls; the database's replacing write is a different operation,
  \<^verbatim>\<open>Collection.upsert\<close>, which the program never calls): a batch with two equal ids
  or with lists of different lengths is rejected, a record whose id is already in the
  collection is skipped and the record in the collection stays as it is, the other
  records are appended.
\<close>

record vector_record =
  vr_id :: string
  vr_embedding :: embedding
  vr_text :: string
  vr_metadata :: metadata

fun insert_new :: "vector_record list \<Rightarrow> vector_record list \<Rightarrow> vector_record list" where
  "insert_new [] store = store"
| "insert_new (r # rs) store =
     insert_new rs (if vr_id r \<in> vr_id ` set store then store else store @ [r])"

fun make_records ::
    "string list \<Rightarrow> embedding list \<Rightarrow> string list \<Rightarrow> metadata list \<Rightarrow> vector_record list" where
  "make_records (i # ids) (e # embs) (d # docs) (m # metas) =
     \<lparr>vr_id = i, vr_embedding = e, vr_text = d, vr_metadata = m\<rparr> # make_records ids embs docs metas"
| "make_records _ _ _ _ = []"

definition insert_only_add ::
    "string list \<Rightarrow> embedding list \<Rightarrow> string list \<Rightarrow> metadata list \<Rightarrow> (unit, vector_record list) action" where
  "insert_only_add ids embs docs metas store =
     (if length embs \<noteq> length ids \<or> length docs \<noteq> length ids \<or> length metas \<noteq> length ids
         \<or> \<not> distinct ids
      then (Inl ValueError, store)
      else (Inr (), insert_new (make_records ids embs docs metas) store))"

definition nearest :: "(embedding \<Rightarrow> embedding \<Rightarrow> real) \<Rightarrow> int \<Rightarrow> vector_record list \<Rightarrow> embedding \<Rightarrow> vector_record list" where
  "nearest metric k store q = take (nat k) (sort_key (\<lambda>r. metric q (vr_embedding r)) store)"

definition memory_backend ::
    "(string \<Rightarrow> embedding) \<Rightarrow> (embedding \<Rightarrow> embedding \<Rightarrow> real) \<Rightarrow> vector_record list backend" where
  "memory_backend embedder metric =
     \<lparr>embed_documents = (\<lambda>texts store. (Inr (map embedder texts), store)),
      embed_query = (\<lambda>q store. (Inr (embedder q), store)),
      collection_add = insert_only_add,
      collection_query = (\<lambda>qes k store.
        (Inr \<lparr>documents = map (\<lambda>q. map vr_text (nearest metric k store q)) qes,
              metadatas = map (\<lambda>q. map vr_metadata (nearest metric k store q)) qes,
              distances = map (\<lambda>q. map (\<lambda>r. metric q (vr_embedding r)) (nearest metric k store q)) qes\<rparr>,
         store)),
      collection_count = (\<lambda>store. (Inr (int (length store)), store))\<rparr>"

text \<open>
  The answer of a query that finds two records, at the distances 0.2 and 0.7, the
  second without metadata; and the two search results that \<open>search\<close> makes of it.
\<close>

definition two_hits :: query_result where
  "two_hits =
     \<lparr>documents = [[''alpha'', ''beta'']],
      metadatas = [[[''source'' \<mapsto> PStr ''a.pdf'', ''page'' \<mapsto> PInt 12], Map.empty]],
      distances = [[0.2, 0.7]]\<rparr>"

definition hit_alpha :: search_result where
  "hit_alpha =
     \<lparr>text = ''alpha'', metadata = [''source'' \<mapsto> PStr ''a.pdf'', ''page'' \<mapsto> PInt 12],
      distance = 0.2\<rparr>"

definition hit_beta :: search_result where
  "hit_beta = \<lparr>text = ''beta'', metadata = Map.empty, distance = 0.7\<rparr>"

text \<open>
  The first chunk of the first page of \<^verbatim>\<open>a.pdf\<close>, before and after the file's text
  has changed.
\<close>

definition chunk_old :: doc where
  "chunk_old =
     \<lparr>text = ''old text'',
      metadata = [''source'' \<mapsto> PStr ''a.pdf'', ''page'' \<mapsto> PInt 1, ''chunk_index'' \<mapsto> PInt 0]\<rparr>"

definition chunk_new :: doc where
  "chunk_new =
     \<lparr>text = ''new text, longer'',
      metadata = [''source'' \<mapsto> PStr ''a.pdf'', ''page'' \<mapsto> PInt 1, ''chunk_index'' \<mapsto> PInt 0]\<rparr>"

text \<open>
  An embedding and a metric for the collection in memory, and the record that the
  collection holds after \<open>chunk_old\<close> has been written to it.
\<close>

definition text_length :: "string \<Rightarrow> embedding" where
  "text_length t = [real (length t)]"

definition no_metric :: "embedding \<Rightarrow> embedding \<Rightarrow> real" where
  "no_metric a b = 0"

definition stored_old :: vector_record where
  "stored_old =
     \<lparr>vr_id = ''a.pdf_1_0'', vr_embedding = [8], vr_text = ''old text'',
      vr_metadata = [''source'' \<mapsto> PStr ''a.pdf'', ''page'' \<mapsto> PInt 1, ''chunk_index'' \<mapsto> PInt 0]\<rparr>"

text \<open>Services that are out of reach: every call raises.\<close>

definition offline_backend :: "unit backend" where
  "offline_backend =
     \<lparr>embed_documents = (\<lambda>texts w. (Inl LibraryError, w)),
      embed_query = (\<lambda>q w. (Inl LibraryError, w)),
      collection_add = (\<lambda>ids embs docs metas w. (Inl LibraryError, w)),
      collection_query = (\<lambda>qes k w. (Inl LibraryError, w)),
      collection_count = (\<lambda>w. (Inl LibraryError, w))\<rparr>"

text \<open>
  A file system with the PDF \<^verbatim>\<open>a.pdf\<close> of one page, beside the collection in memory,
  and a splitter that returns a page as one piece.
\<close>

definition one_page_pdf :: "vector_record list file_system" where
  "one_page_pdf =
     \<lparr>path_name = (\<lambda>p. ''a.pdf''),
      fitz_open = (\<lambda>p w. (Inr \<lparr>page_texts = [Inr ''old text''], close_result = Inr ()\<rparr>, w)),
      read_text = (\<lambda>p w. (Inl LibraryError, w)),
      html_text = (\<lambda>t. Inr t)\<rparr>"

definition whole_page :: "string \<Rightarrow> string list" where
  "whole_page t = [t]"

section \<open>Properties of the chunking loop\<close>

lemma append_page_chunks_texts:
  "map text (fst (append_page_chunks page ts (chunks, k))) = map text chunks @ ts"
  by (induction ts arbitrary: chunks k) simp_all

lemma append_page_chunks_index:
  assumes "map (\<lambda>c. metadata c ''chunk_index'') chunks = map (\<lambda>i. Some (PInt (int i))) [0..<length chunks]"
    and "k = int (length chunks)"
    and "append_page_chunks page ts (chunks, k) = (chunks', k')"
  shows "map (\<lambda>c. metadata c ''chunk_index'') chunks' = map (\<lambda>i. Some (PInt (int i))) [0..<length chunks']
         \<and> k' = int (length chunks')"
  using assms
proof (induction ts arbitrary: chunks k)
  case Nil
  then show ?case by auto
next
  case (Cons t ts)
  let ?c = "\<lparr>text = t, metadata = (metadata page)(''chunk_index'' \<mapsto> PInt k)\<rparr>"
  have step: "append_page_chunks page ts (chunks @ [?c], k + 1) = (chunks', k')"
    using Cons.prems(3) by simp
  have inv: "map (\<lambda>c. metadata c ''chunk_index'') (chunks @ [?c])
             = map (\<lambda>i. Some (PInt (int i))) [0..<length (chunks @ [?c])]"
    using Cons.prems(1,2) by simp
  have cnt: "k + 1 = int (length (chunks @ [?c]))"
    using Cons.prems(2) by simp
  show ?case
    by (rule Cons.IH [OF inv cnt step])
qed

lemma split_pages_index:
  assumes "map (\<lambda>c. metadata c ''chunk_index'') chunks = map (\<lambda>i. Some (PInt (int i))) [0..<length chunks]"
    and "k = int (length chunks)"
    and "split_pages split_text pages (chunks, k) = (chunks', k')"
  shows "map (\<lambda>c. metadata c ''chunk_index'') chunks' = map (\<lambda>i. Some (PInt (int i))) [0..<length chunks']
         \<and> k' = int (length chunks')"
  using assms
proof (induction pages arbitrary: chunks k)
  case Nil
  then show ?case by auto
next
  case (Cons page pages)
  obtain chunks1 k1 where mid: "append_page_chunks page (split_text (text page)) (chunks, k) = (chunks1, k1)"
    by (cases "append_page_chunks page (split_text (text page)) (chunks, k)")
  have inv1: "map (\<lambda>c. metadata c ''chunk_index'') chunks1 = map (\<lambda>i. Some (PInt (int i))) [0..<length chunks1]
              \<and> k1 = int (length chunks1)"
    by (rule append_page_chunks_index [OF Cons.prems(1,2) mid])
  have rest: "split_pages split_text pages (chunks1, k1) = (chunks', k')"
    using Cons.prems(3) mid by simp
  show ?case
    using Cons.IH [OF _ _ rest] inv1 by blast
qed

lemma split_pages_texts:
  "map text (fst (split_pages split_text pages (chunks, k)))
     = map text chunks @ concat (map (\<lambda>p. split_text (text p)) pages)"
proof (induction pages arbitrary: chunks k)
  case Nil
  show ?case by simp
next
  case (Cons page pages)
  obtain chunks1 k1 where mid: "append_page_chunks page (split_text (text page)) (chunks, k) = (chunks1, k1)"
    by (cases "append_page_chunks page (split_text (text page)) (chunks, k)")
  have "map text chunks1 = map text chunks @ split_text (text page)"
    using append_page_chunks_texts [of page "split_text (text page)" chunks k] mid by simp
  then show ?case
    by (simp add: mid Cons.IH)
qed

lemma split_into_chunks_texts:
  "map text (split_into_chunks split_text pages) = concat (map (\<lambda>p. split_text (text p)) pages)"
  by (simp add: split_into_chunks_def split_pages_texts)

text \<open>
  C8. For every list of pages, the chunks carry the chunk indices 0, 1, 2, ... in the
  order in which they are produced, over all pages: the index of the k-th chunk of the
  whole scan is k, whatever page it comes from, and the number of chunks is the total
  number of pieces the splitter returns for the pages.
\<close>

theorem chunk_index_counts_across_pages:
  "map (\<lambda>c. metadata c ''chunk_index'') (split_into_chunks split_text pages)
     = map (\<lambda>i. Some (PInt (int i))) [0..<length (split_into_chunks split_text pages)]
   \<and> length (split_into_chunks split_text pages)
     = length (concat (map (\<lambda>p. split_text (text p)) pages))"
proof -
  obtain chunks' k' where run: "split_pages split_text pages ([], 0) = (chunks', k')"
    by (cases "split_pages split_text pages ([], 0)")
  have "map (\<lambda>c. metadata c ''chunk_index'') chunks' = map (\<lambda>i. Some (PInt (int i))) [0..<length chunks']
        \<and> k' = int (length chunks')"
    by (rule split_pages_index [OF _ _ run]) simp_all
  moreover have "length (split_into_chunks split_text pages)
                 = length (concat (map (\<lambda>p. split_text (text p)) pages))"
    using arg_cong [OF split_into_chunks_texts, of length split_text pages] by simp
  ultimately show ?thesis
    by (simp add: split_into_chunks_def run)
qed

section \<open>Exceptions do not leave the operations\<close>

lemma try_except_total:
  assumes "\<And>e w. \<exists>v w'. handler e w = (Inr v, w')"
  shows "\<exists>v w'. try_except m handler w = (Inr v, w')"
proof (cases "m w")
  case (Pair r w1)
  show ?thesis
  proof (cases r)
    case (Inl e)
    with Pair assms [of e w1] show ?thesis by (simp add: try_except_def)
  next
    case (Inr v)
    with Pair show ?thesis by (simp add: try_except_def)
  qed
qed

lemma try_except_failure:
  "m w = (Inl e, w1) \<Longrightarrow> try_except m (\<lambda>e. ret v) w = (Inr v, w1)"
  by (simp add: try_except_def ret_def)

lemma add_documents_returns: "\<exists>b w'. add_documents bk chunks w = (Inr b, w')"
proof (cases "chunks = []")
  case True
  then show ?thesis by (auto simp add: add_documents_def ret_def)
next
  case False
  have "\<exists>b w'. try_except m (\<lambda>e. ret False) w = (Inr b, w')" for m :: "(bool, 'a) action"
    by (rule try_except_total) (auto simp: ret_def)
  with False show ?thesis
    by (simp add: add_documents_def)
qed

lemma search_returns: "\<exists>rs w'. search bk q n w = (Inr rs, w')"
  unfolding search_def by (rule try_except_total) (auto simp: ret_def)

lemma extract_text_from_pdf_returns: "\<exists>pages w'. extract_text_from_pdf fs path w = (Inr pages, w')"
  unfolding extract_text_from_pdf_def Let_def by (rule try_except_total) (auto simp: ret_def)

lemma extract_text_from_pdf_open_fails:
  assumes "fitz_open fs path w = (Inl e, w1)"
  shows "extract_text_from_pdf fs path w = (Inr [], w1)"
  unfolding extract_text_from_pdf_def Let_def
  by (rule try_except_failure) (simp add: and_then_def assms)

lemma extract_pages_page_fails:
  "Inl e \<in> set texts \<Longrightarrow> \<exists>e'. extract_pages file_name k texts pages = Inl e'"
proof (induction texts arbitrary: k pages)
  case Nil
  then show ?case by simp
next
  case (Cons t texts)
  then show ?case by (cases t) auto
qed

lemma extract_text_from_pdf_page_fails:
  assumes "fitz_open fs path w = (Inr d, w1)" and "Inl e \<in> set (page_texts d)"
  shows "extract_text_from_pdf fs path w = (Inr [], w1)"
proof -
  obtain e' where "extract_pages (path_name fs path) 1 (page_texts d) [] = Inl e'"
    using extract_pages_page_fails [OF assms(2)] by blast
  then show ?thesis
    unfolding extract_text_from_pdf_def Let_def
    by (intro try_except_failure [where e = e']) (simp add: and_then_def assms(1) lift_def)
qed

lemma extract_text_from_html_returns:
  "\<exists>pages w'. extract_text_from_html fs path w = (Inr pages, w')"
  unfolding extract_text_from_html_def Let_def by (rule try_except_total) (auto simp: ret_def)

lemma extract_text_from_html_read_fails:
  assumes "read_text fs path w = (Inl e, w1)"
  shows "extract_text_from_html fs path w = (Inr [], w1)"
  unfolding extract_text_from_html_def Let_def
  by (rule try_except_failure) (simp add: and_then_def assms)

lemma extract_text_from_html_parse_fails:
  assumes "read_text fs path w = (Inr c, w1)" and "html_text fs c = Inl e"
  shows "extract_text_from_html fs path w = (Inr [], w1)"
  unfolding extract_text_from_html_def Let_def
  by (rule try_except_failure [where e = e]) (simp add: and_then_def lift_def assms)

text \<open>
  C4. No exception leaves \<open>add_documents\<close>, \<open>search\<close> or the extraction of a file,
  whatever the chunks, the query, the path and the behaviour of the services and
  libraries are: \<open>add_documents\<close> returns a boolean, \<open>search\<close> returns a list, and the
  extraction of a PDF and of an HTML file returns a list, which is empty when the file
  cannot be opened or read, when a page cannot be read, and when the parser fails.
  (\<open>Inl\<close> would be an exception that leaves the operation.)
\<close>

theorem no_exception_leaves:
  "(\<exists>b w'. add_documents bk chunks w = (Inr b, w'))
   \<and> (\<exists>rs w'. search bk q n w = (Inr rs, w'))
   \<and> (\<exists>pages v'. extract_text_from_pdf fs path v = (Inr pages, v'))
   \<and> (\<exists>pages v'. extract_text_from_html fs path v = (Inr pages, v'))
   \<and> (\<forall>e v1. fitz_open fs path v = (Inl e, v1) \<longrightarrow> extract_text_from_pdf fs path v = (Inr [], v1))
   \<and> (\<forall>d e v1. fitz_open fs path v = (Inr d, v1) \<and> Inl e \<in> set (page_texts d)
        \<longrightarrow> extract_text_from_pdf fs path v = (Inr [], v1))
   \<and> (\<forall>e v1. read_text fs path v = (Inl e, v1) \<longrightarrow> extract_text_from_html fs path v = (Inr [], v1))
   \<and> (\<forall>c e v1. read_text fs path v = (Inr c, v1) \<and> html_text fs c = Inl e
        \<longrightarrow> extract_text_from_html fs path v = (Inr [], v1))"
proof (intro conjI allI impI)
  show "\<exists>b w'. add_documents bk chunks w = (Inr b, w')"
    by (rule add_documents_returns)
  show "\<exists>rs w'. search bk q n w = (Inr rs, w')"
    by (rule search_returns)
  show "\<exists>pages v'. extract_text_from_pdf fs path v = (Inr pages, v')"
    by (rule extract_text_from_pdf_returns)
  show "\<exists>pages v'. extract_text_from_html fs path v = (Inr pages, v')"
    by (rule extract_text_from_html_returns)
  show "extract_text_from_pdf fs path v = (Inr [], v1)" if "fitz_open fs path v = (Inl e, v1)" for e v1
    using that by (rule extract_text_from_pdf_open_fails)
  show "extract_text_from_pdf fs path v = (Inr [], v1)"
    if "fitz_open fs path v = (Inr d, v1) \<and> Inl e \<in> set (page_texts d)" for d e v1
    using that extract_text_from_pdf_page_fails [of fs path v d v1 e] by simp
  show "extract_text_from_html fs path v = (Inr [], v1)" if "read_text fs path v = (Inl e, v1)" for e v1
    using that by (rule extract_text_from_html_read_fails)
  show "extract_text_from_html fs path v = (Inr [], v1)"
    if "read_text fs path v = (Inr c, v1) \<and> html_text fs c = Inl e" for c e v1
    using that extract_text_from_html_parse_fails [of fs path v c v1 e] by simp
qed

theorem no_exception_leaves_witness:
  "fitz_open unreadable_files ''a.pdf'' () = (Inl LibraryError, ())
   \<and> extract_text_from_pdf unreadable_files ''a.pdf'' () = (Inr [], ())
   \<and> read_text unreadable_files ''a.html'' () = (Inl LibraryError, ())
   \<and> extract_text_from_html unreadable_files ''a.html'' () = (Inr [], ())
   \<and> fitz_open torn_files ''b.pdf'' () =
       (Inr \<lparr>page_texts = [Inr ''page one'', Inl LibraryError], close_result = Inr ()\<rparr>, ())
   \<and> extract_text_from_pdf torn_files ''b.pdf'' () = (Inr [], ())
   \<and> read_text torn_files ''b.html'' () = (Inr ''<html'', ())
   \<and> html_text torn_files ''<html'' = Inl LibraryError
   \<and> extract_text_from_html torn_files ''b.html'' () = (Inr [], ())"
proof -
  let ?d = "\<lparr>page_texts = [Inr ''page one'', Inl LibraryError], close_result = Inr ()\<rparr>"
  have a: "fitz_open unreadable_files ''a.pdf'' () = (Inl LibraryError, ())"
    and a2: "read_text unreadable_files ''a.html'' () = (Inl LibraryError, ())"
    by (simp_all add: unreadable_files_def)
  have b: "fitz_open torn_files ''b.pdf'' () = (Inr ?d, ())"
    and b2: "read_text torn_files ''b.html'' () = (Inr ''<html'', ())"
    and b3: "html_text torn_files ''<html'' = Inl LibraryError"
    by (simp_all add: torn_files_def)
  note ta = no_exception_leaves [of "counting_backend no_answer" "[]" 0 "''q''" 3 unreadable_files "''a.pdf''" "()"]
  note th = no_exception_leaves [of "counting_backend no_answer" "[]" 0 "''q''" 3 unreadable_files "''a.html''" "()"]
  note ua = no_exception_leaves [of "counting_backend no_answer" "[]" 0 "''q''" 3 torn_files "''b.pdf''" "()"]
  note uh = no_exception_leaves [of "counting_backend no_answer" "[]" 0 "''q''" 3 torn_files "''b.html''" "()"]
  have a': "extract_text_from_pdf unreadable_files ''a.pdf'' () = (Inr [], ())"
    using ta a by blast
  have a2': "extract_text_from_html unreadable_files ''a.html'' () = (Inr [], ())"
    using th a2 by blast
  have "Inl LibraryError \<in> set (page_texts ?d)"
    by simp
  with ua b have b': "extract_text_from_pdf torn_files ''b.pdf'' () = (Inr [], ())"
    by blast
  have b2': "extract_text_from_html torn_files ''b.html'' () = (Inr [], ())"
    using uh b2 b3 by blast
  show ?thesis
    using a a2 b b2 b3 a' a2' b' b2' by simp
qed

section \<open>The threshold gate\<close>

lemma search_with_threshold_first:
  assumes "search bk q n w = (Inr results, w')"
  shows "search_with_threshold bk q th n w =
     (Inr (if results = [] then ([], False)
           else if distance (hd results) \<le> th then (results, True)
           else ([], False)), w')"
  using assms
  by (cases results)
     (simp_all add: search_with_threshold_def and_then_def ret_def lift_def py_nth_def Let_def)

lemma sorted_hd_Min:
  assumes "xs \<noteq> []" and "sorted (map f xs)"
  shows "f (hd xs) = Min (f ` set xs)"
proof -
  from assms(1) obtain x ys where xs: "xs = x # ys"
    by (cases xs) auto
  with assms(2) have "\<forall>y\<in>set ys. f x \<le> f y"
    by simp
  then show ?thesis
    unfolding xs by (auto intro!: Min_eqI [symmetric])
qed

text \<open>
  C1. The threshold gate, for every query and every behaviour of the services. Let
  \<open>results\<close> be what \<open>search\<close> returns, in ascending order of distance (the order of search
  results). If \<open>results\<close> is empty, the gate returns the empty list and \<open>False\<close>. Otherwise
  only the lowest distance decides: if it is at most the threshold, the gate returns all
  of \<open>results\<close> and \<open>True\<close>, else the empty list and \<open>False\<close>.
\<close>

theorem threshold_gate:
  assumes "search bk q n w = (Inr results, w')"
    and "sorted (map distance results)"
  shows "search_with_threshold bk q th n w =
     (Inr (if results = [] then ([], False)
           else if Min (distance ` set results) \<le> th then (results, True)
           else ([], False)), w')"
  using search_with_threshold_first [OF assms(1)] sorted_hd_Min [OF _ assms(2)]
  by (cases "results = []") simp_all




lemma search_two_hits:
  "search (counting_backend two_hits) ''q'' 3 0 = (Inr [hit_alpha, hit_beta], 2)"
  by (simp add: search_def try_except_def and_then_def lift_def ret_def counting_backend_def
      two_hits_def hit_alpha_def hit_beta_def py_nth_def upt_conv_Cons)

lemma search_no_answer:
  "search (counting_backend no_answer) ''q'' 3 0 = (Inr [], 2)"
  by (simp add: search_def try_except_def and_then_def lift_def ret_def counting_backend_def
      no_answer_def)

theorem threshold_gate_witness:
  "search_with_threshold (counting_backend two_hits) ''q'' 0.5 3 0 = (Inr ([hit_alpha, hit_beta], True), 2)
   \<and> search_with_threshold (counting_backend two_hits) ''q'' 0.1 3 0 = (Inr ([], False), 2)
   \<and> search_with_threshold (counting_backend no_answer) ''q'' 0.5 3 0 = (Inr ([], False), 2)"
proof -
  have s: "sorted (map distance [hit_alpha, hit_beta])"
    by (simp add: hit_alpha_def hit_beta_def)
  have m: "Min (distance ` set [hit_alpha, hit_beta]) = 0.2"
    by (simp add: hit_alpha_def hit_beta_def)
  show ?thesis
    using threshold_gate [OF search_two_hits s, of "0.5"] threshold_gate [OF search_two_hits s, of "0.1"]
      threshold_gate [OF search_no_answer, of "0.5"]
    by (simp add: hit_alpha_def hit_beta_def)
qed

section \<open>No payload without use_rag\<close>

text \<open>
  C5. Whenever \<open>use_rag\<close> is false the payload is empty: the list that
  \<open>search_with_threshold\<close> returns with the flag \<open>False\<close> is empty, and a response of
  \<open>get_rag_response_data\<close> whose \<open>use_rag\<close> is false has the empty string as context and as
  prompt and the empty list as search results.
\<close>

theorem empty_payload_without_use_rag:
  "(\<forall>results w'. search_with_threshold bk q th n w = (Inr (results, False), w') \<longrightarrow> results = [])
   \<and> (\<forall>d w'. get_rag_response_data self bk q w = (Inr d, w') \<and> \<not> use_rag d
         \<longrightarrow> context d = [] \<and> prompt d = [] \<and> search_results d = [])"
proof -
  have gate: "results = []" if a: "search_with_threshold bk q th n w = (Inr (results, False), w')"
    for results w'
  proof -
    obtain rs w1 where s: "search bk q n w = (Inr rs, w1)"
      using search_returns [of bk q n w] by blast
    from a search_with_threshold_first [OF s, of th] show ?thesis
      by (auto split: if_splits)
  qed
  have data: "context d = [] \<and> prompt d = [] \<and> search_results d = []"
    if a: "get_rag_response_data self bk q w = (Inr d, w') \<and> \<not> use_rag d" for d w'
    using a
    by (auto simp: get_rag_response_data_def and_then_def ret_def Let_def
        split: sum.splits prod.splits if_splits)
  from gate data show ?thesis
    by blast
qed

theorem empty_payload_without_use_rag_witness:
  "(\<exists>results. search_with_threshold (counting_backend two_hits) ''q'' 0.1 3 0 = (Inr (results, False), 2)
       \<and> results = [])
   \<and> (\<exists>d. get_rag_response_data \<lparr>documents_dir = ''data/documents'', threshold = 0.1\<rparr>
              (counting_backend two_hits) ''q'' 0 = (Inr d, 2)
          \<and> \<not> use_rag d \<and> context d = [] \<and> prompt d = [] \<and> search_results d = [])"
proof -
  let ?self = "\<lparr>documents_dir = ''data/documents'', threshold = 0.1\<rparr>"
  let ?bk = "counting_backend two_hits"
  note t = empty_payload_without_use_rag [of ?bk "''q''" "0.1" 3 0 ?self]
  have gate: "search_with_threshold ?bk ''q'' 0.1 3 0 = (Inr ([], False), 2)"
    using search_with_threshold_first [OF search_two_hits, of "0.1"]
    by (simp add: hit_alpha_def hit_beta_def)
  obtain d where run: "get_rag_response_data ?self ?bk ''q'' 0 = (Inr d, 2)" and off: "\<not> use_rag d"
    using gate by (simp add: get_rag_response_data_def query_def and_then_def ret_def)
  have "context d = [] \<and> prompt d = [] \<and> search_results d = []"
    using t [THEN conjunct2, rule_format, of d 2] run off by simp
  with gate run off show ?thesis
    by blast
qed

section \<open>The context\<close>

lemma context_parts_loop_blocks:
  "context_parts_loop i results context_parts =
     context_parts @
     map (\<lambda>(i, r). lit_ref_open @ str_int (int i) @ lit_ref_close
                 @ py_str (py_get (metadata r) ''source'' (PStr lit_unknown)) @ lit_page
                 @ py_str (py_get (metadata r) ''page'' (PStr ''?'')) @ '')'' @ [CHR 0x0A] @ text r)
         (List.enumerate i results)"
  by (induction results arbitrary: i context_parts) (simp_all add: Let_def)

text \<open>
  C9. \<open>build_rag_context\<close> joins, with an empty line between them, one block per search
  result, in the order of the list; the block of the i-th result (counted from 1) is the
  opening, the number i, the source of the result (or the default), the page of the
  result (or the default), and after a line break the text of the result, unchanged.
\<close>

theorem build_rag_context_blocks:
  "build_rag_context results =
     join [CHR 0x0A, CHR 0x0A]
       (map (\<lambda>(i, r). lit_ref_open @ str_int (int i) @ lit_ref_close
                 @ py_str (py_get (metadata r) ''source'' (PStr lit_unknown)) @ lit_page
                 @ py_str (py_get (metadata r) ''page'' (PStr ''?'')) @ '')'' @ [CHR 0x0A] @ text r)
            (List.enumerate 1 results))
   \<and> map fst (List.enumerate 1 results) = [1..<Suc (length results)]
   \<and> map snd (List.enumerate 1 results) = results"
  by (simp add: build_rag_context_def context_parts_loop_blocks)

lemma build_rag_context_two_hits:
  "build_rag_context [hit_alpha, hit_beta] =
     lit_ref_open @ ''1'' @ lit_ref_close @ ''a.pdf'' @ lit_page @ ''12)'' @ [CHR 0x0A] @ ''alpha''
     @ [CHR 0x0A, CHR 0x0A]
     @ lit_ref_open @ ''2'' @ lit_ref_close @ lit_unknown @ lit_page @ ''?)'' @ [CHR 0x0A] @ ''beta''"
  by (simp add: build_rag_context_def hit_alpha_def hit_beta_def py_get_def str_int_def
      digits.simps digit_char_def Let_def)

section \<open>Ids\<close>

text \<open>
  C10. \<open>add_documents\<close> with no chunks returns \<open>False\<close> and leaves the outside world as
  it is, for every behaviour of the services: also where every call to the embedding
  service or to the collection would change the world, so none is made.
\<close>

theorem add_documents_empty: "add_documents bk [] w = (Inr False, w)"
  by (simp add: add_documents_def ret_def)



lemma record_id_chunk_old: "record_id chunk_old = Inr ''a.pdf_1_0''"
  by (simp add: record_id_def py_getitem_def chunk_old_def str_int_def digits.simps digit_char_def)

lemma record_id_chunk_new: "record_id chunk_new = Inr ''a.pdf_1_0''"
  by (simp add: record_id_def py_getitem_def chunk_new_def str_int_def digits.simps digit_char_def)


lemma store_chunk_old_first:
  "add_documents (memory_backend text_length no_metric) [chunk_old] [] = (Inr True, [stored_old])"
  by (simp add: add_documents_def try_except_def and_then_def lift_def ret_def Let_def
      record_id_chunk_old memory_backend_def insert_only_add_def)
     (simp add: chunk_old_def stored_old_def text_length_def)



text \<open>
  On the collection in memory the ids count: had \<open>add_documents\<close> handed over another
  id, the collection would not be the one that the run leaves.
\<close>

lemma wrong_id_refuted:
  "\<not> (\<exists>embeddings w1 w2 k.
            embed_documents (memory_backend text_length no_metric) [''old text''] [] = (Inr embeddings, w1)
          \<and> collection_add (memory_backend text_length no_metric) [''WRONG-ID''] embeddings [''old text'']
                [metadata chunk_old] w1 = (Inr (), w2)
          \<and> collection_count (memory_backend text_length no_metric) w2 = (Inr k, [stored_old]))"
  by (auto simp: memory_backend_def insert_only_add_def stored_old_def)

section \<open>Writing an id that is already in the collection\<close>

lemma insert_new_ids:
  "vr_id ` set (insert_new rs store) = vr_id ` set store \<union> vr_id ` set rs"
  by (induction rs arbitrary: store) auto

lemma insert_new_present:
  "vr_id ` set rs \<subseteq> vr_id ` set store \<Longrightarrow> insert_new rs store = store"
  by (induction rs arbitrary: store) auto

lemma insert_new_distinct:
  "distinct (map vr_id store) \<Longrightarrow> distinct (map vr_id (insert_new rs store))"
  by (induction rs arbitrary: store) auto

lemma insert_new_extends: "\<exists>added. insert_new rs store = store @ added"
proof (induction rs arbitrary: store)
  case Nil
  show ?case by simp
next
  case (Cons r rs)
  show ?case
  proof (cases "vr_id r \<in> vr_id ` set store")
    case True
    with Cons [of store] show ?thesis by simp
  next
    case False
    from Cons [of "store @ [r]"] obtain added where "insert_new rs (store @ [r]) = store @ [r] @ added"
      by auto
    with False show ?thesis by auto
  qed
qed

lemma make_records_ids:
  "length embs = length ids \<Longrightarrow> length docs = length ids \<Longrightarrow> length metas = length ids
   \<Longrightarrow> map vr_id (make_records ids embs docs metas) = ids"
proof (induction ids embs docs metas rule: make_records.induct)
  case (1 i ids e embs d docs m metas)
  then show ?case by simp
qed simp_all

lemma collect_record_id_metadata:
  "map metadata chunks' = map metadata chunks \<Longrightarrow> collect record_id chunks' = collect record_id chunks"
proof (induction chunks arbitrary: chunks')
  case Nil
  then show ?case by simp
next
  case (Cons c chunks)
  then obtain c' cs' where c': "chunks' = c' # cs'" "metadata c' = metadata c" "map metadata cs' = map metadata chunks"
    by (cases chunks') auto
  have "record_id c' = record_id c"
    unfolding record_id_def c'(2) ..
  with Cons.IH [OF c'(3)] c'(1) show ?case
    by (simp split: sum.splits)
qed

lemma collect_length: "collect f xs = Inr ys \<Longrightarrow> length ys = length xs"
  by (induction xs arbitrary: ys) (auto split: sum.splits)

lemma add_documents_memory:
  assumes "chunks \<noteq> []" and "collect record_id chunks = Inr ids"
  shows "add_documents (memory_backend embedder metric) chunks store =
           (if distinct ids
            then (Inr True, insert_new (make_records ids (map embedder (map text chunks))
                                         (map text chunks) (map metadata chunks)) store)
            else (Inr False, store))"
  using assms collect_length [OF assms(2)]
  by (simp add: add_documents_def try_except_def and_then_def lift_def ret_def Let_def
      memory_backend_def insert_only_add_def)

lemma add_documents_memory_success:
  assumes "add_documents (memory_backend embedder metric) chunks store = (Inr True, store1)"
  shows "\<exists>ids. collect record_id chunks = Inr ids \<and> distinct ids \<and> chunks \<noteq> []
           \<and> store1 = insert_new (make_records ids (map embedder (map text chunks))
                                    (map text chunks) (map metadata chunks)) store"
proof -
  have ne: "chunks \<noteq> []"
    using assms by (auto simp: add_documents_def ret_def)
  obtain ids where ids: "collect record_id chunks = Inr ids"
    using assms ne
    by (cases "collect record_id chunks")
       (auto simp: add_documents_def try_except_def and_then_def lift_def ret_def Let_def)
  from assms add_documents_memory [OF ne ids, of embedder metric store] ne ids show ?thesis
    by (auto split: if_splits)
qed

lemma add_documents_memory_again:
  assumes first: "add_documents (memory_backend embedder metric) chunks store = (Inr True, store1)"
    and same: "map metadata chunks' = map metadata chunks"
  shows "add_documents (memory_backend embedder metric) chunks' store1 = (Inr True, store1)"
proof -
  from add_documents_memory_success [OF first] obtain ids where
    ids: "collect record_id chunks = Inr ids" and d: "distinct ids" and ne: "chunks \<noteq> []"
    and s1: "store1 = insert_new (make_records ids (map embedder (map text chunks))
                                    (map text chunks) (map metadata chunks)) store"
    by blast
  have len: "length ids = length chunks"
    by (rule collect_length [OF ids])
  have ids': "collect record_id chunks' = Inr ids"
    using collect_record_id_metadata [OF same] ids by simp
  have ne': "chunks' \<noteq> []"
    using same ne by auto
  have len': "length chunks' = length chunks"
    using arg_cong [OF same, of length] by simp
  have present: "set ids \<subseteq> vr_id ` set store1"
    unfolding s1 insert_new_ids
    using make_records_ids [of "map embedder (map text chunks)" ids "map text chunks" "map metadata chunks"] len
    by (metis Un_upper2 length_map set_map)
  have "vr_id ` set (make_records ids (map embedder (map text chunks'))
                       (map text chunks') (map metadata chunks')) \<subseteq> vr_id ` set store1"
    using make_records_ids [of "map embedder (map text chunks')" ids "map text chunks'" "map metadata chunks'"]
      len len' present
    by (metis length_map set_map)
  then show ?thesis
    using add_documents_memory [OF ne' ids', of embedder metric store1] d
    by (simp add: insert_new_present)
qed

text \<open>
  C2, as the code has it. On a collection whose \<open>add\<close> inserts (the stand-in
  \<open>memory_backend\<close>), with unique ids: after a batch of chunks has been written, writing a
  batch with the same metadata again (the same file, with the same or with changed text)
  derives the same ids, succeeds, and leaves the collection exactly as it was. No second
  record is added for an id, the ids stay unique, and the records written before are
  kept as they are: they are not overwritten.
\<close>

theorem reingestion_keeps_records:
  assumes first: "add_documents (memory_backend embedder metric) chunks store = (Inr True, store1)"
    and same: "map metadata chunks' = map metadata chunks"
    and uniq: "distinct (map vr_id store)"
  shows "collect record_id chunks' = collect record_id chunks
       \<and> add_documents (memory_backend embedder metric) chunks' store1 = (Inr True, store1)
       \<and> distinct (map vr_id store1)
       \<and> (\<exists>added. store1 = store @ added)"
proof -
  from add_documents_memory_success [OF first] obtain ids where
    s1: "store1 = insert_new (make_records ids (map embedder (map text chunks))
                                (map text chunks) (map metadata chunks)) store"
    by blast
  have "distinct (map vr_id store1)"
    unfolding s1 by (rule insert_new_distinct [OF uniq])
  moreover have "\<exists>added. store1 = store @ added"
    unfolding s1 by (rule insert_new_extends)
  ultimately show ?thesis
    using collect_record_id_metadata [OF same] add_documents_memory_again [OF first same]
    by simp
qed

text \<open>
  C2 as stated fails where it says that a write to an existing id overwrites the
  content: \<open>chunk_old\<close> and \<open>chunk_new\<close> have the same id and different texts; after
  \<open>chunk_old\<close> and then \<open>chunk_new\<close> have been written, both with success, the collection
  holds one record for the id, with the text of \<open>chunk_old\<close>.
\<close>

theorem existing_id_not_overwritten:
  "record_id chunk_old = Inr ''a.pdf_1_0'' \<and> record_id chunk_new = Inr ''a.pdf_1_0''
   \<and> text chunk_new \<noteq> text chunk_old
   \<and> add_documents (memory_backend text_length no_metric) [chunk_old] [] = (Inr True, [stored_old])
   \<and> add_documents (memory_backend text_length no_metric) [chunk_new] [stored_old] = (Inr True, [stored_old])
   \<and> vr_text stored_old = text chunk_old"
proof -
  have "add_documents (memory_backend text_length no_metric) [chunk_new] [stored_old] = (Inr True, [stored_old])"
    using add_documents_memory [of "[chunk_new]" "[''a.pdf_1_0'']" text_length no_metric "[stored_old]"]
    by (simp add: record_id_chunk_new) (simp add: stored_old_def)
  then show ?thesis
    using store_chunk_old_first record_id_chunk_old record_id_chunk_new
    by (simp add: chunk_old_def chunk_new_def stored_old_def)
qed

theorem reingestion_keeps_records_witness:
  "add_documents (memory_backend text_length no_metric) [chunk_old] [] = (Inr True, [stored_old])
   \<and> map metadata [chunk_new] = map metadata [chunk_old]
   \<and> distinct (map vr_id ([] :: vector_record list))
   \<and> collect record_id [chunk_new] = collect record_id [chunk_old]
   \<and> add_documents (memory_backend text_length no_metric) [chunk_new] [stored_old] = (Inr True, [stored_old])
   \<and> distinct (map vr_id [stored_old])"
proof -
  have same: "map metadata [chunk_new] = map metadata [chunk_old]"
    by (simp add: chunk_old_def chunk_new_def)
  have uniq: "distinct (map vr_id ([] :: vector_record list))"
    by simp
  from reingestion_keeps_records [OF store_chunk_old_first same uniq] store_chunk_old_first same
  show ?thesis
    by simp
qed

section \<open>Construction of the document processor\<close>

lemma DocumentProcessor_init_fails_iff:
  "(DocumentProcessor_init splitter_init csize coverlap = Inl e)
     = (splitter_init csize coverlap separators = Inl e)"
  by (simp add: DocumentProcessor_init_def split: sum.splits)

text \<open>
  C3, as the code has it. The constructor of the document processor fails exactly when
  the constructor of the library's splitter fails, with the same exception, and then no
  processor exists that could read or process a document; it makes no check of its own.
  With the library's check, every configuration with overlap > chunk_size fails.
\<close>

theorem construction_fails_with_splitter:
  "(DocumentProcessor_init splitter_init csize coverlap = Inl e)
     = (splitter_init csize coverlap separators = Inl e)
   \<and> (csize < coverlap \<longrightarrow> DocumentProcessor_init TextSplitter_init csize coverlap = Inl ValueError)"
  by (simp add: DocumentProcessor_init_fails_iff) (simp add: TextSplitter_init_def)

theorem construction_fails_with_splitter_witness:
  "(100::int) < 200 \<and> DocumentProcessor_init TextSplitter_init 100 200 = Inl ValueError"
  using construction_fails_with_splitter [of TextSplitter_init 100 200 ValueError]
  by simp

text \<open>
  C3 as stated fails at overlap = chunk_size: with chunk size 100 and overlap 100 the
  library's check passes and the processor is constructed.
\<close>

theorem overlap_equal_to_chunk_size_accepted:
  "(100::int) \<ge> 100
   \<and> DocumentProcessor_init TextSplitter_init 100 100 =
       Inr \<lparr>chunk_size = 100, chunk_overlap = 100,
            text_splitter = \<lparr>splitter_chunk_size = 100, splitter_chunk_overlap = 100,
                             splitter_separators = separators\<rparr>\<rparr>"
  by (simp add: DocumentProcessor_init_def TextSplitter_init_def)

section \<open>Further properties\<close>

text \<open>
  X1. The chunking step adds no text of its own and drops none: the texts of the chunks
  are the pieces that the splitter returns for the pages, page after page, in order.
\<close>

theorem chunk_texts_are_splitter_pieces:
  "map text (split_into_chunks split_text pages) = concat (map (\<lambda>p. split_text (text p)) pages)"
  by (rule split_into_chunks_texts)

text \<open>
  X2. For a fixed query and collection with a best distance d, the gate is a step in
  the threshold: \<open>use_rag\<close> is true exactly for the thresholds that are at least d, and
  then all results are returned.
\<close>

theorem threshold_step:
  assumes "search bk q n w = (Inr results, w')" and "results \<noteq> []"
  shows "search_with_threshold bk q th n w =
           (Inr (if distance (hd results) \<le> th then results else [], distance (hd results) \<le> th), w')"
  using search_with_threshold_first [OF assms(1), of th] assms(2) by simp

theorem threshold_step_witness:
  "search_with_threshold (counting_backend two_hits) ''q'' 0.2 3 0 = (Inr ([hit_alpha, hit_beta], True), 2)
   \<and> search_with_threshold (counting_backend two_hits) ''q'' 0.19 3 0 = (Inr ([], False), 2)"
  using threshold_step [OF search_two_hits, of "0.2"] threshold_step [OF search_two_hits, of "0.19"]
  by (simp add: hit_alpha_def hit_beta_def)

lemma search_memory_empty:
  "search (memory_backend embedder metric) q n [] = (Inr [], [])"
  by (simp add: search_def try_except_def and_then_def lift_def ret_def memory_backend_def nearest_def)

text \<open>
  X3. A query to a collection without records (the collection in memory, empty)
  returns no results and \<open>use_rag\<close> false.
\<close>

theorem empty_corpus_is_ungrounded:
  "search_with_threshold (memory_backend embedder metric) q th n [] = (Inr ([], False), [])
   \<and> get_rag_response_data self (memory_backend embedder metric) q [] =
       (Inr \<lparr>use_rag = False, context = [], prompt = [], search_results = []\<rparr>, [])"
proof -
  have gate: "search_with_threshold (memory_backend embedder metric) q th n [] = (Inr ([], False), [])" for th n
    using search_with_threshold_first [OF search_memory_empty, where th = th] by simp
  then show ?thesis
    by (simp add: get_rag_response_data_def query_def and_then_def ret_def)
qed

lemma and_then_returns:
  assumes "\<exists>v w'. m w = (Inr v, w')" and "\<And>v w'. \<exists>u w''. f v w' = (Inr u, w'')"
  shows "\<exists>u w''. and_then m f w = (Inr u, w'')"
  using assms by (auto simp: and_then_def)

lemma search_with_threshold_returns:
  "\<exists>r w'. search_with_threshold bk q th n w = (Inr r, w')"
proof -
  obtain rs w1 where "search bk q n w = (Inr rs, w1)"
    using search_returns [of bk q n w] by blast
  from search_with_threshold_first [OF this, of th] show ?thesis
    by blast
qed

lemma process_pdf_returns: "\<exists>chunks w'. process_pdf fs split_text path w = (Inr chunks, w')"
  unfolding process_pdf_def
  by (rule and_then_returns [OF extract_text_from_pdf_returns]) (auto simp: ret_def)

lemma process_html_returns: "\<exists>chunks w'. process_html fs split_text path w = (Inr chunks, w')"
  unfolding process_html_def
  by (rule and_then_returns [OF extract_text_from_html_returns]) (auto simp: ret_def)

text \<open>
  X4. No exception leaves the operations built on the extraction, on
  \<open>add_documents\<close> and on \<open>search\<close>: \<open>process_pdf\<close>, \<open>process_html\<close>,
  \<open>process_and_store_pdf\<close>, \<open>search_with_threshold\<close>, \<open>query\<close> and
  \<open>get_rag_response_data\<close>.
\<close>

theorem pipeline_never_raises:
  "(\<exists>chunks w'. process_pdf fs split_text path w = (Inr chunks, w'))
   \<and> (\<exists>chunks w'. process_html fs split_text path w = (Inr chunks, w'))
   \<and> (\<exists>b w'. process_and_store_pdf fs split_text bk path w = (Inr b, w'))
   \<and> (\<exists>r w'. search_with_threshold bk q th n w = (Inr r, w'))
   \<and> (\<exists>r w'. query self bk q n w = (Inr r, w'))
   \<and> (\<exists>d w'. get_rag_response_data self bk q w = (Inr d, w'))"
proof (intro conjI)
  show "\<exists>chunks w'. process_pdf fs split_text path w = (Inr chunks, w')"
    by (rule process_pdf_returns)
  show "\<exists>chunks w'. process_html fs split_text path w = (Inr chunks, w')"
    by (rule process_html_returns)
  show "\<exists>b w'. process_and_store_pdf fs split_text bk path w = (Inr b, w')"
    unfolding process_and_store_pdf_def
    by (rule and_then_returns [OF process_pdf_returns])
       (use add_documents_returns in \<open>auto simp: ret_def\<close>)
  show "\<exists>r w'. search_with_threshold bk q th n w = (Inr r, w')"
    by (rule search_with_threshold_returns)
  show "\<exists>r w'. query self bk q n w = (Inr r, w')"
    unfolding query_def by (rule search_with_threshold_returns)
  show "\<exists>d w'. get_rag_response_data self bk q w = (Inr d, w')"
    unfolding get_rag_response_data_def query_def
    by (rule and_then_returns [OF search_with_threshold_returns]) (auto simp: ret_def Let_def)
qed

text \<open>
  X5. When the embedding of the query or the query to the collection raises, the
  response is the ungrounded one: \<open>use_rag\<close> false and empty context, prompt and
  results.
\<close>

theorem failed_search_is_ungrounded:
  assumes "embed_query bk q w = (Inl e, w1)
           \<or> (\<exists>qe w0. embed_query bk q w = (Inr qe, w0) \<and> collection_query bk [qe] 3 w0 = (Inl e, w1))"
  shows "get_rag_response_data self bk q w =
           (Inr \<lparr>use_rag = False, context = [], prompt = [], search_results = []\<rparr>, w1)"
proof -
  have "search bk q 3 w = (Inr [], w1)"
    using assms by (auto simp: search_def try_except_def and_then_def ret_def)
  from search_with_threshold_first [OF this, of "threshold self"] show ?thesis
    by (simp add: get_rag_response_data_def query_def and_then_def ret_def)
qed

theorem failed_search_is_ungrounded_witness:
  "embed_query offline_backend ''q'' () = (Inl LibraryError, ())
   \<and> get_rag_response_data \<lparr>documents_dir = ''data/documents'', threshold = 1.5\<rparr> offline_backend ''q'' () =
       (Inr \<lparr>use_rag = False, context = [], prompt = [], search_results = []\<rparr>, ())"
proof -
  have a: "embed_query offline_backend ''q'' () = (Inl LibraryError, ())"
    by (simp add: offline_backend_def)
  from a failed_search_is_ungrounded [of offline_backend "''q''" "()" LibraryError "()"]
  show ?thesis
    by simp
qed

text \<open>
  X6. \<open>add_documents\<close> of a batch that is not empty returns \<open>False\<close> when an id cannot
  be built (a metadata key is missing), when the embedding raises, and when the
  collection's \<open>add\<close> raises; the world is then as the failed call has left it.
\<close>

theorem add_documents_failure_is_false:
  assumes "chunks \<noteq> []"
    and "collect record_id chunks = Inl e
         \<or> (\<exists>ids. collect record_id chunks = Inr ids
              \<and> (embed_documents bk (map text chunks) w = (Inl e, w1)
                 \<or> (\<exists>embs w0. embed_documents bk (map text chunks) w = (Inr embs, w0)
                      \<and> collection_add bk ids embs (map text chunks) (map metadata chunks) w0 = (Inl e, w1))))"
  shows "add_documents bk chunks w = (Inr False, if collect record_id chunks = Inl e then w else w1)"
  using assms
  by (auto simp: add_documents_def try_except_def and_then_def lift_def ret_def Let_def)

theorem add_documents_failure_is_false_witness:
  "[chunk_old] \<noteq> [] \<and> collect record_id [chunk_old] = Inr [''a.pdf_1_0'']
   \<and> embed_documents offline_backend (map text [chunk_old]) () = (Inl LibraryError, ())
   \<and> add_documents offline_backend [chunk_old] () = (Inr False, ())"
proof -
  have a: "collect record_id [chunk_old] = Inr [''a.pdf_1_0'']"
    by (simp add: record_id_chunk_old)
  have b: "embed_documents offline_backend (map text [chunk_old]) () = (Inl LibraryError, ())"
    by (simp add: offline_backend_def)
  from a b add_documents_failure_is_false [of "[chunk_old]" LibraryError offline_backend "()" "()"]
  show ?thesis
    by simp
qed

lemma extract_text_from_pdf_unchanged_file:
  assumes "\<forall>s. fitz_open fs path s = (Inr d, s)"
  shows "\<exists>pages. \<forall>s. extract_text_from_pdf fs path s = (Inr pages, s)"
proof (cases "extract_pages (path_name fs path) 1 (page_texts d) []")
  case (Inl e)
  with assms show ?thesis
    by (auto simp: extract_text_from_pdf_def try_except_def and_then_def lift_def ret_def)
next
  case (Inr pages)
  with assms show ?thesis
    by (cases "close_result d")
       (auto simp: extract_text_from_pdf_def try_except_def and_then_def lift_def ret_def)
qed

text \<open>
  X7. On the collection in memory, processing and storing a PDF that has been stored
  with success, and that reads the same again, succeeds and leaves the collection as it
  was.
\<close>

theorem reingest_pdf_unchanged:
  assumes unchanged: "\<forall>s. fitz_open fs path s = (Inr d, s)"
    and first: "process_and_store_pdf fs split_text (memory_backend embedder metric) path store = (Inr True, store1)"
  shows "process_and_store_pdf fs split_text (memory_backend embedder metric) path store1 = (Inr True, store1)"
proof -
  from extract_text_from_pdf_unchanged_file [OF unchanged] obtain pages where
    pages: "\<And>s. extract_text_from_pdf fs path s = (Inr pages, s)"
    by blast
  define chunks where "chunks = (if pages = [] then [] else split_into_chunks split_text pages)"
  have proc: "process_pdf fs split_text path s = (Inr chunks, s)" for s
    by (simp add: process_pdf_def and_then_def pages ret_def chunks_def)
  have ne: "chunks \<noteq> []"
    using first by (auto simp: process_and_store_pdf_def and_then_def proc ret_def)
  with first have "add_documents (memory_backend embedder metric) chunks store = (Inr True, store1)"
    by (simp add: process_and_store_pdf_def and_then_def proc)
  from add_documents_memory_again [OF this refl] ne show ?thesis
    by (simp add: process_and_store_pdf_def and_then_def proc)
qed

lemma strip_old_text: "strip ''old text'' = ''old text''"
  by (simp add: strip_def ws_one_def ws_two_def ws_three_def)

lemma process_one_page_pdf:
  "process_pdf one_page_pdf whole_page ''docs/a.pdf'' s = (Inr [chunk_old], s)"
  by (simp add: process_pdf_def extract_text_from_pdf_def try_except_def and_then_def lift_def ret_def
      one_page_pdf_def strip_old_text split_into_chunks_def whole_page_def chunk_old_def)

lemma store_one_page_pdf:
  "process_and_store_pdf one_page_pdf whole_page (memory_backend text_length no_metric) ''docs/a.pdf'' []
     = (Inr True, [stored_old])"
  using add_documents_memory [of "[chunk_old]" "[''a.pdf_1_0'']" text_length no_metric "[]"]
  by (simp add: process_and_store_pdf_def and_then_def process_one_page_pdf record_id_chunk_old)
     (simp add: chunk_old_def stored_old_def text_length_def)

theorem reingest_pdf_unchanged_witness:
  "process_and_store_pdf one_page_pdf whole_page (memory_backend text_length no_metric) ''docs/a.pdf'' []
     = (Inr True, [stored_old])
   \<and> process_and_store_pdf one_page_pdf whole_page (memory_backend text_length no_metric) ''docs/a.pdf'' [stored_old]
     = (Inr True, [stored_old])"
proof -
  have unchanged: "\<forall>s. fitz_open one_page_pdf ''docs/a.pdf'' s
                 = (Inr \<lparr>page_texts = [Inr ''old text''], close_result = Inr ()\<rparr>, s)"
    by (simp add: one_page_pdf_def)
  from reingest_pdf_unchanged [OF unchanged store_one_page_pdf] store_one_page_pdf show ?thesis
    by simp
qed

lemma py_nth_0: "py_nth (x # xs) 0 = Inr x"
  by (simp add: py_nth_def)

lemma py_nth_in: "i < length xs \<Longrightarrow> py_nth xs i = Inr (xs ! i)"
  by (simp add: py_nth_def)

lemma format_results_step:
  assumes "documents r = ds # dr" and "metadatas r = ms # mr" and "distances r = xs # xr"
    and "i < length ds" and "i < length ms" and "i < length xs"
  shows "format_results r (i # indices) acc =
           format_results r indices (acc @ [\<lparr>text = ds ! i, metadata = ms ! i, distance = xs ! i\<rparr>])"
  by (subst format_results.simps)
     (simp only: assms(1-3) py_nth_0 py_nth_in [OF assms(4)] py_nth_in [OF assms(5)]
        py_nth_in [OF assms(6)] sum.case)

lemma format_results_steps:
  assumes "documents r = ds # dr" and "metadatas r = ms # mr" and "distances r = xs # xr"
    and "length ms = length ds" and "length xs = length ds"
    and "\<forall>i\<in>set indices. i < length ds"
  shows "format_results r indices acc =
           Inr (acc @ map (\<lambda>i. \<lparr>text = ds ! i, metadata = ms ! i, distance = xs ! i\<rparr>) indices)"
  using assms(6)
proof (induction indices arbitrary: acc)
  case Nil
  show ?case by simp
next
  case (Cons i indices)
  from Cons.prems have i: "i < length ds" and rest: "\<forall>j\<in>set indices. j < length ds"
    by simp_all
  from i assms(4,5) have "i < length ms" and "i < length xs"
    by simp_all
  note step = format_results_step [OF assms(1-3) i this]
  show ?case
    unfolding step Cons.IH [OF rest] by simp
qed

lemma search_run:
  assumes "embed_query bk q w = (Inr qe, w1)" and "collection_query bk [qe] n w1 = (Inr r, w')"
  shows "search bk q n w =
           (case (case documents r of
                    [] \<Rightarrow> Inr []
                  | documents0 # _ \<Rightarrow>
                      if documents0 = [] then Inr []
                      else format_results r [0..<length documents0] []) of
              Inl e \<Rightarrow> (Inr [], w')
            | Inr results \<Rightarrow> (Inr results, w'))"
  by (simp add: search_def try_except_def and_then_def lift_def ret_def assms split: sum.splits)

text \<open>
  X8. \<open>search\<close> returns what the collection answers, in the collection's order: when
  the answer has one list of documents, of metadata and of distances, all of one length,
  the search results are these documents with their metadata and distances, one result
  for each, in that order. So the results are in ascending order of distance when the
  collection's answer is.
\<close>

theorem search_keeps_order:
  assumes "embed_query bk q w = (Inr qe, w1)"
    and "collection_query bk [qe] n w1 = (Inr r, w')"
    and "documents r = [ds]" and "metadatas r = [ms]" and "distances r = [xs]"
    and "length ms = length ds" and "length xs = length ds"
  shows "\<exists>results. search bk q n w = (Inr results, w')
           \<and> map text results = ds \<and> map metadata results = ms \<and> map distance results = xs"
proof (cases "ds = []")
  case True
  have "search bk q n w = (Inr [], w')"
    unfolding search_run [OF assms(1,2)] assms(3) True by simp
  with True assms(6,7) show ?thesis
    by simp
next
  case False
  let ?results = "map (\<lambda>i. \<lparr>text = ds ! i, metadata = ms ! i, distance = xs ! i\<rparr>) [0..<length ds]"
  have "format_results r [0..<length ds] [] = Inr ?results"
    using format_results_steps [OF assms(3-7), of "[0..<length ds]" "[]"] by simp
  then have "search bk q n w = (Inr ?results, w')"
    unfolding search_run [OF assms(1,2)] assms(3) using False by simp
  moreover have "map text ?results = ds"
    by (simp add: o_def map_nth)
  moreover have "map metadata ?results = ms"
    using assms(6) by (simp add: o_def) (metis map_nth)
  moreover have "map distance ?results = xs"
    using assms(7) by (simp add: o_def) (metis map_nth)
  ultimately show ?thesis
    by blast
qed

theorem search_keeps_order_witness:
  "\<exists>results. search (counting_backend two_hits) ''q'' 3 0 = (Inr results, 2)
      \<and> map text results = [''alpha'', ''beta'']
      \<and> map metadata results = [[''source'' \<mapsto> PStr ''a.pdf'', ''page'' \<mapsto> PInt 12], Map.empty]
      \<and> map distance results = [0.2, 0.7]"
  using search_keeps_order [of "counting_backend two_hits" "''q''" 0 "[1]" 1 3 two_hits 2
      "[''alpha'', ''beta'']" "[[''source'' \<mapsto> PStr ''a.pdf'', ''page'' \<mapsto> PInt 12], Map.empty]" "[0.2, 0.7]"]
  by (simp add: counting_backend_def two_hits_def)

end
